theory Spec2Isabelle
  imports Complex_Main
begin

section \<open>Constants (src/src/config/constants.ts, lines 1-42)\<close>

text \<open>
  JavaScript numbers are IEEE doubles.  They are modelled as the reals they denote (and as
  integers or naturals where the program only ever stores whole numbers: coins, upgrade
  tiers), with the rounding of an operation written out as \<open>fl\<close> (below) where the
  program's results depend on it: the coin arithmetic of \<open>crash\<close>, \<open>victory\<close> and
  \<open>purchaseUpgrade\<close>, the arithmetic of \<open>onMouseMove\<close> and the launch angle in degrees.
  The integration of a tick and the trigonometry of \<open>launch\<close> are kept over the reals.
  The values \<open>Infinity\<close> and \<open>NaN\<close> are not modelled.
\<close>

section \<open>Rounding to double precision\<close>

text \<open>
  Rounding a real to the nearest integer, ties to the even one.
\<close>

definition rne :: "real \<Rightarrow> int" where
  "rne r =
     (let f = \<lfloor>r\<rfloor>; d = r - of_int f
      in if d < 1 / 2 then f
         else if 1 / 2 < d then f + 1
         else if even f then f else f + 1)"

text \<open>
  The binary exponent of a positive real as a double has it: that of its leading bit, and
  -1022 for the subnormal numbers.
\<close>

definition expo :: "real \<Rightarrow> int" where
  "expo x = max \<lfloor>log 2 x\<rfloor> (- 1022)"

text \<open>
  \<open>fl x\<close> is the double nearest to \<open>x\<close>, ties to the even significand: the value a
  numeric literal denotes and the result of an arithmetic operation whose exact result is
  \<open>x\<close>.  A double has 53 significant bits, so the spacing of doubles around \<open>x\<close> is
  \<open>2 powi (expo x - 52)\<close>.  Beyond the largest double the program has \<open>Infinity\<close>; \<open>fl\<close>
  keeps rounding to 53 bits there.
\<close>

definition flpos :: "real \<Rightarrow> real" where
  "flpos x =
     (if x = 0 then 0
      else of_int (rne (x / 2 powi (expo x - 52))) * 2 powi (expo x - 52))"

definition fl :: "real \<Rightarrow> real" where
  "fl x = (if x < 0 then - flpos (- x) else flpos x)"

text \<open>
  The same rounding for the whole numbers kept as integers (a double of magnitude 2^52 or
  more is a whole number).
\<close>

definition dblInt :: "int \<Rightarrow> int" where
  "dblInt n = \<lfloor>fl (of_int n)\<rfloor>"

definition GRAVITY :: real where "GRAVITY = - 20"
definition BASE_DRAG :: real where "BASE_DRAG = 0.02"
definition BOUNCE_DAMPING :: real where "BOUNCE_DAMPING = 0.6"
definition TUMBLE_SLOWDOWN :: real where "TUMBLE_SLOWDOWN = 0.98"

definition MIN_PULL_DISTANCE :: real where "MIN_PULL_DISTANCE = 0.5"
definition MAX_PULL_DISTANCE :: real where "MAX_PULL_DISTANCE = 10"
definition LAUNCH_POWER_MULTIPLIER :: real where "LAUNCH_POWER_MULTIPLIER = 8"

definition PLANE_HEIGHT :: real where "PLANE_HEIGHT = 0.3"

datatype GameState = Ready | Pulling | Flying | Crashed

datatype ZoneKey = runway | city | desert | forest

record Zone =
  zone_start :: real
  zone_end :: real

fun ZONES :: "ZoneKey \<Rightarrow> Zone" where
  "ZONES runway = \<lparr>zone_start = 0, zone_end = 100\<rparr>"
| "ZONES city = \<lparr>zone_start = 100, zone_end = 1000\<rparr>"
| "ZONES desert = \<lparr>zone_start = 1000, zone_end = 3000\<rparr>"
| "ZONES forest = \<lparr>zone_start = 3000, zone_end = 6000\<rparr>"

section \<open>Upgrade catalog (src/src/config/upgradeData.ts)\<close>

text \<open>
  An \<open>UpgradeTier\<close> is an object with a \<open>cost\<close> and further number-valued keys; the
  further keys are kept as an association list.  The cosmetic \<open>name\<close> and
  \<open>description\<close> of an \<open>UpgradeDefinition\<close> are left out.
\<close>

datatype UpgradeKey = wings | wheels | tail | aerodynamic | slingshot | boosters

record UpgradeTier =
  cost :: int
  stats :: "(string \<times> real) list"

record UpgradeDefinition =
  maxTier :: nat
  tiers :: "UpgradeTier list"
  requires :: "UpgradeKey option"

definition tier2 :: "int \<Rightarrow> string \<Rightarrow> real \<Rightarrow> string \<Rightarrow> real \<Rightarrow> UpgradeTier" where
  "tier2 c k1 v1 k2 v2 = \<lparr>cost = c, stats = [(k1, v1), (k2, v2)]\<rparr>"

definition tier1 :: "int \<Rightarrow> string \<Rightarrow> real \<Rightarrow> UpgradeTier" where
  "tier1 c k1 v1 = \<lparr>cost = c, stats = [(k1, v1)]\<rparr>"

fun UPGRADES :: "UpgradeKey \<Rightarrow> UpgradeDefinition" where
  "UPGRADES wings = \<lparr>maxTier = 10, tiers =
     [tier2 100 ''lift'' 0.1 ''control'' 0.1,
      tier2 250 ''lift'' 0.15 ''control'' 0.15,
      tier2 500 ''lift'' 0.2 ''control'' 0.2,
      tier2 800 ''lift'' 0.25 ''control'' 0.25,
      tier2 1200 ''lift'' 0.3 ''control'' 0.3,
      tier2 1800 ''lift'' 0.35 ''control'' 0.35,
      tier2 2500 ''lift'' 0.4 ''control'' 0.4,
      tier2 3500 ''lift'' 0.45 ''control'' 0.45,
      tier2 5000 ''lift'' 0.5 ''control'' 0.5,
      tier2 7500 ''lift'' 0.6 ''control'' 0.6],
     requires = None\<rparr>"
| "UPGRADES wheels = \<lparr>maxTier = 10, tiers =
     [tier1 150 ''friction'' 0.9,
      tier1 350 ''friction'' 0.85,
      tier1 600 ''friction'' 0.8,
      tier1 900 ''friction'' 0.75,
      tier1 1300 ''friction'' 0.7,
      tier1 1900 ''friction'' 0.65,
      tier1 2700 ''friction'' 0.6,
      tier1 3800 ''friction'' 0.55,
      tier1 5200 ''friction'' 0.5,
      tier1 7000 ''friction'' 0.45],
     requires = Some wings\<rparr>"
| "UPGRADES tail = \<lparr>maxTier = 10, tiers =
     [tier2 200 ''stability'' 0.1 ''pitch'' 0.1,
      tier2 400 ''stability'' 0.15 ''pitch'' 0.15,
      tier2 700 ''stability'' 0.2 ''pitch'' 0.2,
      tier2 1100 ''stability'' 0.25 ''pitch'' 0.25,
      tier2 1600 ''stability'' 0.3 ''pitch'' 0.3,
      tier2 2200 ''stability'' 0.35 ''pitch'' 0.35,
      tier2 3000 ''stability'' 0.4 ''pitch'' 0.4,
      tier2 4000 ''stability'' 0.45 ''pitch'' 0.45,
      tier2 5500 ''stability'' 0.5 ''pitch'' 0.5,
      tier2 7500 ''stability'' 0.6 ''pitch'' 0.6],
     requires = Some wings\<rparr>"
| "UPGRADES aerodynamic = \<lparr>maxTier = 10, tiers =
     [tier1 100 ''dragReduction'' 0.05,
      tier1 200 ''dragReduction'' 0.1,
      tier1 400 ''dragReduction'' 0.15,
      tier1 700 ''dragReduction'' 0.2,
      tier1 1100 ''dragReduction'' 0.25,
      tier1 1600 ''dragReduction'' 0.3,
      tier1 2200 ''dragReduction'' 0.35,
      tier1 3000 ''dragReduction'' 0.4,
      tier1 4000 ''dragReduction'' 0.45,
      tier1 5500 ''dragReduction'' 0.5],
     requires = Some wings\<rparr>"
| "UPGRADES slingshot = \<lparr>maxTier = 10, tiers =
     [tier1 50 ''power'' 1.1,
      tier1 120 ''power'' 1.2,
      tier1 250 ''power'' 1.35,
      tier1 450 ''power'' 1.5,
      tier1 750 ''power'' 1.7,
      tier1 1100 ''power'' 1.9,
      tier1 1600 ''power'' 2.1,
      tier1 2300 ''power'' 2.4,
      tier1 3200 ''power'' 2.7,
      tier1 4500 ''power'' 3.0],
     requires = None\<rparr>"
| "UPGRADES boosters = \<lparr>maxTier = 10, tiers =
     [tier2 300 ''uses'' 1 ''boost'' 15,
      tier2 600 ''uses'' 2 ''boost'' 18,
      tier2 1000 ''uses'' 3 ''boost'' 21,
      tier2 1500 ''uses'' 4 ''boost'' 24,
      tier2 2200 ''uses'' 5 ''boost'' 27,
      tier2 3000 ''uses'' 6 ''boost'' 30,
      tier2 4000 ''uses'' 7 ''boost'' 33,
      tier2 5200 ''uses'' 8 ''boost'' 36,
      tier2 6800 ''uses'' 9 ''boost'' 39,
      tier2 9000 ''uses'' 10 ''boost'' 45],
     requires = Some wings\<rparr>"

text \<open>
  \<open>xs[i]\<close> on a JavaScript array is \<open>undefined\<close> out of range; \<open>nth_opt\<close> makes that
  case explicit.
\<close>

definition nth_opt :: "'a list \<Rightarrow> nat \<Rightarrow> 'a option" where
  "nth_opt xs i = (if i < length xs then Some (xs ! i) else None)"

text \<open>
  \<open>level > 0 ? UPGRADES[key].tiers[level - 1] : null\<close>, the pattern by which \<open>launch\<close>
  and \<open>updatePhysics\<close> read the statistics of an owned tier.  \<open>None\<close> stands for both
  \<open>null\<close> (not owned) and \<open>undefined\<close> (a level beyond the table): the source tests the
  result only for truthiness.
\<close>

definition tierStats :: "UpgradeKey \<Rightarrow> nat \<Rightarrow> UpgradeTier option" where
  "tierStats k level = (if level > 0 then nth_opt (tiers (UPGRADES k)) (level - 1) else None)"

text \<open>
  Reading a key of a tier, \<open>tier.lift\<close>.  A key that a tier does not carry would be
  \<open>undefined\<close> in the source; every key the program reads is carried by every tier of the
  upgrade it is read from (lemma \<open>stats_present\<close> below), so the default is never taken.
\<close>

definition stat :: "UpgradeTier \<Rightarrow> string \<Rightarrow> real" where
  "stat t k = (case map_of (stats t) k of Some v \<Rightarrow> v | None \<Rightarrow> 0)"

section \<open>Game state (module-level variables of the main script)\<close>

text \<open>
  The main script follows the constants in src/src/config/constants.ts (from line 43).
  Its module-level variables become the fields of one record that every function takes
  and returns.  Three.js meshes, the camera and the DOM are presentation only and are
  left out; of the plane, its \<open>position\<close> and \<open>rotation\<close> are kept.
\<close>

record Vector3 =
  vx :: real
  vy :: real
  vz :: real

record Vector2 =
  px :: real
  py :: real

definition vec3 :: "real \<Rightarrow> real \<Rightarrow> real \<Rightarrow> Vector3" where
  "vec3 a b c = \<lparr>vx = a, vy = b, vz = c\<rparr>"

text \<open>\<open>Vector3.length()\<close> and \<open>Vector3.multiplyScalar(s)\<close> of Three.js.\<close>

definition length3 :: "Vector3 \<Rightarrow> real" where
  "length3 v = sqrt (vx v * vx v + vy v * vy v + vz v * vz v)"

definition multiplyScalar :: "Vector3 \<Rightarrow> real \<Rightarrow> Vector3" where
  "multiplyScalar v s = \<lparr>vx = vx v * s, vy = vy v * s, vz = vz v * s\<rparr>"

definition add3 :: "Vector3 \<Rightarrow> Vector3 \<Rightarrow> Vector3" where
  "add3 a b = \<lparr>vx = vx a + vx b, vy = vy a + vy b, vz = vz a + vz b\<rparr>"

record Box3 =
  box_min :: Vector3
  box_max :: Vector3

text \<open>\<open>Box3.intersectsBox\<close> of Three.js: the boxes overlap on all three axes.\<close>

definition intersectsBox :: "Box3 \<Rightarrow> Box3 \<Rightarrow> bool" where
  "intersectsBox a b =
     (if vx (box_max b) < vx (box_min a) \<or> vx (box_min b) > vx (box_max a) \<or>
         vy (box_max b) < vy (box_min a) \<or> vy (box_min b) > vy (box_max a) \<or>
         vz (box_max b) < vz (box_min a) \<or> vz (box_min b) > vz (box_max a)
      then False else True)"

text \<open>
  An obstacle: the position of its mesh, the box \<open>setFromObject(obstacle.mesh)\<close> yields
  (the meshes never move), and its type.
\<close>

record Obstacle =
  mesh_position :: Vector3
  boundingBox :: Box3
  otype :: string

record keys =
  left :: bool
  right :: bool
  up :: bool
  down :: bool
  boost :: bool

text \<open>
  The object \<open>saveProgress\<close> serialises into \<open>localStorage\<close>.  The store is modelled by
  the last object written (\<open>None\<close>: nothing stored) and by the number of
  \<open>setItem\<close> calls made.  This is the store as the program itself fills it; what
  \<open>loadProgress\<close> does with an arbitrary stored text is modelled in its own section.
\<close>

record saveData =
  saved_coins :: int
  highestDistance :: real
  saved_upgrades :: "UpgradeKey \<Rightarrow> nat"
  saved_checkpoints :: "ZoneKey \<Rightarrow> bool"

record game =
  gameState :: GameState
  coins :: int
  distance :: real
  boosterUsesRemaining :: real
  upgrades :: "UpgradeKey \<Rightarrow> nat"
  checkpoints :: "ZoneKey \<Rightarrow> bool"
  currentCheckpoint :: ZoneKey
  highestDistanceThisRun :: real
  startingZ :: real
  keys :: keys
  obstacles :: "Obstacle list"
  velocity :: Vector3
  angularVelocity :: Vector3
  position :: Vector3
  rotation :: Vector3
  isDragging :: bool
  pullDistance :: real
  launchAngle :: real
  pullStart :: Vector2
  pullCurrent :: Vector2
  slingshotPosition :: Vector3
  localStorage :: "saveData option"
  setItemCalls :: nat

definition slingshotHeight :: real where "slingshotHeight = 3"

section \<open>Progress store\<close>

text \<open>\<open>getSavedHighestDistance\<close> (lines 1357-1364): \<open>data.highestDistance || 0\<close>.\<close>

definition getSavedHighestDistance :: "game \<Rightarrow> real" where
  "getSavedHighestDistance g =
     (case localStorage g of
        Some data \<Rightarrow> (if highestDistance data \<noteq> 0 then highestDistance data else 0)
      | None \<Rightarrow> 0)"

text \<open>\<open>saveProgress\<close> (lines 1332-1340).\<close>

definition saveProgress :: "game \<Rightarrow> game" where
  "saveProgress g =
     (let saveData = \<lparr>saved_coins = coins g,
                       highestDistance = max (distance g) (getSavedHighestDistance g),
                       saved_upgrades = upgrades g,
                       saved_checkpoints = checkpoints g\<rparr>
      in g\<lparr>localStorage := Some saveData, setItemCalls := Suc (setItemCalls g)\<rparr>)"

text \<open>\<open>getCheckpointStartPosition\<close> (lines 1411-1422).\<close>

definition getCheckpointStartPosition :: "game \<Rightarrow> real" where
  "getCheckpointStartPosition g =
     (case currentCheckpoint g of
        city \<Rightarrow> zone_start (ZONES city)
      | desert \<Rightarrow> zone_start (ZONES desert)
      | forest \<Rightarrow> zone_start (ZONES forest)
      | runway \<Rightarrow> 0)"

text \<open>\<open>checkAndUnlockCheckpoints\<close> (lines 1384-1409).\<close>

definition checkAndUnlockCheckpoints :: "game \<Rightarrow> game" where
  "checkAndUnlockCheckpoints g =
     (let absolutePosition = startingZ g + distance g;
          (g1, unlocked1) =
            (if absolutePosition \<ge> zone_start (ZONES city) \<and> \<not> checkpoints g city
             then (g\<lparr>checkpoints := (checkpoints g)(city := True)\<rparr>, True) else (g, False));
          (g2, unlocked2) =
            (if absolutePosition \<ge> zone_start (ZONES desert) \<and> \<not> checkpoints g1 desert
             then (g1\<lparr>checkpoints := (checkpoints g1)(desert := True)\<rparr>, True)
             else (g1, unlocked1));
          (g3, unlocked3) =
            (if absolutePosition \<ge> zone_start (ZONES forest) \<and> \<not> checkpoints g2 forest
             then (g2\<lparr>checkpoints := (checkpoints g2)(forest := True)\<rparr>, True)
             else (g2, unlocked2))
      in if unlocked3 then saveProgress g3 else g3)"

text \<open>
  \<open>crash\<close> (lines 1235-1250) and \<open>victory\<close> (lines 1252-1270), without the overlay.
  \<open>Math.floor\<close> of a double is exact; the sums \<open>Math.floor(distance) + 10000\<close> and
  \<open>coins += coinsEarned\<close> are rounded.
\<close>

definition crash :: "game \<Rightarrow> game" where
  "crash g =
     (let g1 = g\<lparr>gameState := Crashed\<rparr>;
          coinsEarned = \<lfloor>distance g1\<rfloor>
      in saveProgress (g1\<lparr>coins := dblInt (coins g1 + coinsEarned)\<rparr>))"

definition victory :: "game \<Rightarrow> game" where
  "victory g =
     (let g1 = g\<lparr>gameState := Crashed\<rparr>;
          coinsEarned = dblInt (\<lfloor>distance g1\<rfloor> + 10000)
      in saveProgress (g1\<lparr>coins := dblInt (coins g1 + coinsEarned)\<rparr>))"

section \<open>Collision detection\<close>

text \<open>
  \<open>handleCollision\<close> (lines 756-759) logs and calls \<open>crash\<close>.
\<close>

definition handleCollision :: "Obstacle \<Rightarrow> game \<Rightarrow> game" where
  "handleCollision obstacle g = crash g"

text \<open>
  The loop of \<open>checkObstacleCollisions\<close> (lines 741-753): obstacles farther than 50 from
  the plane along z are skipped; the first overlapping one is handled and ends the search.
\<close>

fun scanObstacles :: "Box3 \<Rightarrow> game \<Rightarrow> Obstacle list \<Rightarrow> game" where
  "scanObstacles planeBox g [] = g"
| "scanObstacles planeBox g (obstacle # rest) =
     (if \<bar>vz (mesh_position obstacle) - vz (position g)\<bar> > 50
      then scanObstacles planeBox g rest
      else if intersectsBox planeBox (boundingBox obstacle)
      then handleCollision obstacle g
      else scanObstacles planeBox g rest)"

text \<open>
  \<open>checkObstacleCollisions\<close> (lines 735-754).  \<open>planeBox\<close> is the box that
  \<open>new THREE.Box3().setFromObject(plane)\<close> computes from the plane's meshes; that
  computation belongs to Three.js, so the box is a parameter.
\<close>

definition checkObstacleCollisions :: "Box3 \<Rightarrow> game \<Rightarrow> game" where
  "checkObstacleCollisions planeBox g =
     (if gameState g \<noteq> Flying then g else scanObstacles planeBox g (obstacles g))"

section \<open>Per-tick physics\<close>

text \<open>
  \<open>animate\<close> (lines 1619-1634) computes the time step from two timestamps in milliseconds.
\<close>

definition frameDeltaTime :: "real \<Rightarrow> real \<Rightarrow> real" where
  "frameDeltaTime time lastTime = min ((time - lastTime) / 1000) 0.1"

text \<open>
  \<open>updatePhysics\<close> (lines 1057-1196) is split along its own comment blocks; the blocks
  are composed in source order by \<open>integrate\<close> and \<open>updatePhysics\<close> below.
  Player controls, lines 1076-1102.
\<close>

definition applyControls :: "real \<Rightarrow> game \<Rightarrow> game" where
  "applyControls deltaTime g =
     (let hasWings = upgrades g wings > 0;
          hasTail = upgrades g tail > 0;
          wingStats = tierStats wings (upgrades g wings);
          tailStats = tierStats tail (upgrades g tail);
          baseControl = 0.5;
          wingControl = (case wingStats of Some w \<Rightarrow> stat w ''control'' * 20 | None \<Rightarrow> 0);
          lateralControl = baseControl + wingControl;
          g1 = (if left (keys g)
                then g\<lparr>velocity := (velocity g)\<lparr>vx := vx (velocity g) + lateralControl * deltaTime\<rparr>,
                       rotation := (rotation g)\<lparr>vz := max (vz (rotation g) - 2 * deltaTime) (- 0.3)\<rparr>\<rparr>
                else g);
          g2 = (if right (keys g1)
                then g1\<lparr>velocity := (velocity g1)\<lparr>vx := vx (velocity g1) - lateralControl * deltaTime\<rparr>,
                        rotation := (rotation g1)\<lparr>vz := min (vz (rotation g1) + 2 * deltaTime) 0.3\<rparr>\<rparr>
                else g1)
      in case tailStats of
           None \<Rightarrow> g2
         | Some t \<Rightarrow>
             if hasWings \<and> hasTail then
               (let pitchControl = stat t ''pitch'' * 15;
                    g3 = (if up (keys g2)
                          then g2\<lparr>velocity := (velocity g2)\<lparr>vy := vy (velocity g2) + pitchControl * deltaTime\<rparr>,
                                  rotation := (rotation g2)\<lparr>vx := max (vx (rotation g2) - deltaTime) (- 0.5)\<rparr>\<rparr>
                          else g2);
                    g4 = (if down (keys g3)
                          then g3\<lparr>velocity := (velocity g3)\<lparr>vy := vy (velocity g3) - pitchControl * deltaTime * 0.5\<rparr>,
                                  rotation := (rotation g3)\<lparr>vx := min (vx (rotation g3) + deltaTime) 0.5\<rparr>\<rparr>
                          else g3)
                in g4)
             else g2)"

text \<open>Gravity and lift, lines 1104-1111.\<close>

definition applyGravityLift :: "real \<Rightarrow> game \<Rightarrow> game" where
  "applyGravityLift deltaTime g =
     (let hasWings = upgrades g wings > 0;
          wingStats = tierStats wings (upgrades g wings);
          g1 = g\<lparr>velocity := (velocity g)\<lparr>vy := vy (velocity g) + GRAVITY * deltaTime\<rparr>\<rparr>
      in case wingStats of
           None \<Rightarrow> g1
         | Some w \<Rightarrow>
             if hasWings \<and> vz (velocity g1) > 5 then
               (let liftForce = stat w ''lift'' * vz (velocity g1) * 0.5
                in g1\<lparr>velocity := (velocity g1)\<lparr>vy := vy (velocity g1) + liftForce * deltaTime\<rparr>\<rparr>)
             else g1)"

text \<open>
  Drag, lines 1113-1120, as a function of the aerodynamic level, the time step and the
  velocity it rescales.
\<close>

definition applyDrag :: "nat \<Rightarrow> real \<Rightarrow> Vector3 \<Rightarrow> Vector3" where
  "applyDrag aerodynamicLevel deltaTime v =
     (let aeroStats = tierStats aerodynamic aerodynamicLevel;
          dragReduction = (case aeroStats of Some a \<Rightarrow> stat a ''dragReduction'' | None \<Rightarrow> 0);
          effectiveDrag = BASE_DRAG * (1 - dragReduction);
          speed = length3 v;
          dragForce = speed * speed * effectiveDrag
      in if speed > 0 then multiplyScalar v (1 - dragForce * deltaTime) else v)"

text \<open>Position update and the clamp of x, lines 1122-1126.\<close>

definition updatePosition :: "real \<Rightarrow> game \<Rightarrow> game" where
  "updatePosition deltaTime g =
     (let p = add3 (position g) (multiplyScalar (velocity g) deltaTime)
      in g\<lparr>position := p\<lparr>vx := max (- 50) (min 50 (vx p))\<rparr>\<rparr>)"

text \<open>Tumbling, lines 1128-1140.\<close>

definition updateRotation :: "real \<Rightarrow> game \<Rightarrow> game" where
  "updateRotation deltaTime g =
     (let hasWings = upgrades g wings > 0
      in if \<not> hasWings then
           g\<lparr>rotation := (rotation g)\<lparr>vx := vx (rotation g) + vx (angularVelocity g) * deltaTime,
                                        vz := vz (rotation g) + vz (angularVelocity g) * deltaTime\<rparr>\<rparr>
         else
           (let g1 = g\<lparr>angularVelocity := multiplyScalar (angularVelocity g) 0.95\<rparr>;
                g2 = g1\<lparr>rotation := (rotation g1)\<lparr>vx := vx (rotation g1) + vx (angularVelocity g1) * deltaTime * 0.3\<rparr>\<rparr>
            in if \<not> left (keys g2) \<and> \<not> right (keys g2)
               then g2\<lparr>rotation := (rotation g2)\<lparr>vz := vz (rotation g2) * 0.95\<rparr>\<rparr>
               else g2))"

text \<open>
  Ground contact, lines 1142-1170.  \<open>rnd\<close> is the value \<open>Math.random()\<close> returns when the
  branch without wheels draws one.
\<close>

definition groundCollision :: "real \<Rightarrow> game \<Rightarrow> game" where
  "groundCollision rnd g =
     (let wheelStats = tierStats wheels (upgrades g wheels)
      in if vy (position g) \<le> PLANE_HEIGHT / 2 then
           (let g1 = g\<lparr>position := (position g)\<lparr>vy := PLANE_HEIGHT / 2\<rparr>\<rparr>
            in if vy (velocity g1) < - 1 then
                 (let g2 = g1\<lparr>velocity := (velocity g1)\<lparr>vy := - vy (velocity g1) * BOUNCE_DAMPING\<rparr>\<rparr>
                  in case wheelStats of
                       Some w \<Rightarrow>
                         g2\<lparr>velocity := (velocity g2)\<lparr>vz := vz (velocity g2) * stat w ''friction''\<rparr>,
                            angularVelocity := vec3 0 0 0,
                            rotation := (rotation g2)\<lparr>vx := 0, vz := 0\<rparr>\<rparr>
                     | None \<Rightarrow>
                         g2\<lparr>velocity := (velocity g2)\<lparr>vz := vz (velocity g2) * TUMBLE_SLOWDOWN\<rparr>,
                            angularVelocity :=
                              (angularVelocity g2)\<lparr>vx := vx (angularVelocity g2) + (rnd - 0.5) * 3\<rparr>\<rparr>)
               else
                 (let g2 = g1\<lparr>velocity := (velocity g1)\<lparr>vy := 0\<rparr>\<rparr>
                  in case wheelStats of
                       Some w \<Rightarrow> g2\<lparr>velocity := (velocity g2)\<lparr>vz := vz (velocity g2) * 0.995\<rparr>\<rparr>
                     | None \<Rightarrow> g2\<lparr>velocity := (velocity g2)\<lparr>vz := vz (velocity g2) * 0.98\<rparr>\<rparr>))
         else g)"

text \<open>Distance bookkeeping, lines 1172-1175.\<close>

definition updateDistance :: "game \<Rightarrow> game" where
  "updateDistance g =
     (let distanceFromStart = vz (position g) - startingZ g
      in g\<lparr>distance := max 0 distanceFromStart,
            highestDistanceThisRun := max (highestDistanceThisRun g) (vz (position g))\<rparr>)"

text \<open>Everything of a tick up to and including the distance bookkeeping, in source order.\<close>

definition integrate :: "real \<Rightarrow> real \<Rightarrow> game \<Rightarrow> game" where
  "integrate rnd deltaTime g =
     (let g1 = applyControls deltaTime g;
          g2 = applyGravityLift deltaTime g1;
          g3 = g2\<lparr>velocity := applyDrag (upgrades g2 aerodynamic) deltaTime (velocity g2)\<rparr>;
          g4 = updatePosition deltaTime g3;
          g5 = updateRotation deltaTime g4;
          g6 = groundCollision rnd g5
      in updateDistance g6)"

text \<open>
  \<open>updatePhysics\<close>, lines 1057-1196: the integration, then the checkpoint check, the
  obstacle check, the victory check and the stop check (lines 1177-1192).  \<open>planeBoxOf\<close>
  gives the plane's bounding box in a state (see \<open>checkObstacleCollisions\<close>).  The HUD
  update at the end changes no variable of the model.
\<close>

definition updatePhysics :: "(game \<Rightarrow> Box3) \<Rightarrow> real \<Rightarrow> real \<Rightarrow> game \<Rightarrow> game" where
  "updatePhysics planeBoxOf rnd deltaTime g =
     (if gameState g \<noteq> Flying then g
      else
        (let g1 = integrate rnd deltaTime g;
             g2 = checkAndUnlockCheckpoints g1;
             g3 = checkObstacleCollisions (planeBoxOf g2) g2
         in if vz (position g3) \<ge> 6000 then victory g3
            else if length3 (velocity g3) < 0.5 \<and> vy (position g3) \<le> PLANE_HEIGHT / 2 + 0.1
            then crash g3
            else g3))"

section \<open>Launch and pointer input\<close>

text \<open>
  An exception leaves the module-level variables as they were when it was thrown.  A
  function that can throw returns \<open>Inl (error, state at the throw)\<close>, and \<open>Inr\<close> of the
  final state when it completes.
\<close>

datatype error = TypeError | SyntaxError

type_synonym outcome = "(error \<times> game) + game"

definition final :: "outcome \<Rightarrow> game" where
  "final r = (case r of Inl (e, g) \<Rightarrow> g | Inr g \<Rightarrow> g)"

text \<open>
  \<open>UPGRADES[key].tiers[level - 1][name]\<close> as \<open>launch\<close> reads it, without a truthiness
  test: a level beyond the table reads a property of \<open>undefined\<close> and throws
  (\<open>None\<close>).
\<close>

definition tierStat :: "UpgradeKey \<Rightarrow> nat \<Rightarrow> string \<Rightarrow> real option" where
  "tierStat k level name =
     (case nth_opt (tiers (UPGRADES k)) (level - 1) of
        Some t \<Rightarrow> Some (stat t name)
      | None \<Rightarrow> None)"

text \<open>
  The launch angle in degrees, \<open>15 + launchAngle * 50\<close> (lines 832 and 1024), each of the
  two operations rounded.
\<close>

definition angleDegrees :: "real \<Rightarrow> real" where
  "angleDegrees a = fl (15 + fl (a * 50))"

text \<open>\<open>launch\<close> (lines 1006-1055); \<open>rnd\<close> is the value of \<open>Math.random()\<close>.\<close>

definition launch :: "real \<Rightarrow> game \<Rightarrow> outcome" where
  "launch rnd g =
     (let g1 = g\<lparr>gameState := Flying\<rparr>
      in case (if upgrades g1 slingshot > 0
               then tierStat slingshot (upgrades g1 slingshot) ''power''
               else Some 1) of
           None \<Rightarrow> Inl (TypeError, g1)
         | Some slingshotMultiplier \<Rightarrow>
             (let minPower = 20;
                  basePower = pullDistance g1 * LAUNCH_POWER_MULTIPLIER;
                  power = max minPower basePower * slingshotMultiplier;
                  actualAngle = angleDegrees (launchAngle g1) * (pi / 180);
                  startZ = getCheckpointStartPosition g1;
                  g2 = g1\<lparr>startingZ := startZ,
                          position := vec3 0 slingshotHeight startZ,
                          rotation := vec3 0 0 0,
                          velocity := vec3 0 (sin actualAngle * power) (cos actualAngle * power)\<rparr>;
                  tumbleMultiplier = (if upgrades g2 wings > 0 then 0.1 else 0.5);
                  g3 = g2\<lparr>angularVelocity := vec3 ((rnd - 0.5) * tumbleMultiplier) 0 0\<rparr>
              in case (if upgrades g3 boosters > 0
                       then tierStat boosters (upgrades g3 boosters) ''uses''
                       else Some (boosterUsesRemaining g3)) of
                   None \<Rightarrow> Inl (TypeError, g3)
                 | Some uses \<Rightarrow>
                     Inr (g3\<lparr>boosterUsesRemaining := uses,
                             highestDistanceThisRun := 0,
                             launchAngle := 0.5\<rparr>)))"

text \<open>\<open>resetPlanePosition\<close> (lines 1312-1320).\<close>

definition resetPlanePosition :: "game \<Rightarrow> game" where
  "resetPlanePosition g =
     g\<lparr>position := vec3 (vx (slingshotPosition g)) (slingshotHeight - 0.5) (vz (slingshotPosition g)),
       pullDistance := 0\<rparr>"

text \<open>\<open>onMouseDown\<close> (lines 787-794), with the pointer's \<open>clientX\<close> and \<open>clientY\<close>.\<close>

definition onMouseDown :: "real \<Rightarrow> real \<Rightarrow> game \<Rightarrow> game" where
  "onMouseDown clientX clientY g =
     (if gameState g \<noteq> Ready then g
      else g\<lparr>isDragging := True, gameState := Pulling,
             pullStart := \<lparr>px = clientX, py = clientY\<rparr>,
             pullCurrent := \<lparr>px = clientX, py = clientY\<rparr>\<rparr>)"

text \<open>
  \<open>onMouseMove\<close> (lines 796-837), without the rubber bands and the indicator text.  Every
  operation is rounded; the literals 0.4, 1.2 and 0.15 denote their nearest doubles, while
  0.5, 20, 200 and the bounds of the clamps are doubles themselves.  \<open>Math.sqrt\<close> is
  correctly rounded.
\<close>

definition onMouseMove :: "real \<Rightarrow> real \<Rightarrow> game \<Rightarrow> game" where
  "onMouseMove clientX clientY g =
     (if \<not> isDragging g \<or> gameState g \<noteq> Pulling then g
      else
        (let g1 = g\<lparr>pullCurrent := \<lparr>px = clientX, py = clientY\<rparr>\<rparr>;
             deltaX = fl (px (pullCurrent g1) - px (pullStart g1));
             deltaY = fl (py (pullCurrent g1) - py (pullStart g1));
             totalDrag = fl (sqrt (fl (fl (deltaX * deltaX) + fl (deltaY * deltaY))));
             g2 = g1\<lparr>pullDistance := min MAX_PULL_DISTANCE (max 0 (fl (totalDrag / 20)))\<rparr>;
             g3 = (if totalDrag > 10
                   then (let angleInfluence = max (- 1) (min 1 (fl (- deltaX / 200)))
                         in g2\<lparr>launchAngle := fl (0.5 + fl (angleInfluence * fl 0.4))\<rparr>)
                   else g2);
             startZ = getCheckpointStartPosition g3
         in g3\<lparr>position :=
                  (position g3)\<lparr>vz := fl (startZ - fl (pullDistance g3 * fl 1.2)),
                                  vy := fl (fl (slingshotHeight - fl (pullDistance g3 * fl 0.15))
                                            + fl (launchAngle g3 * 0.5))\<rparr>,
                rotation := (rotation g3)\<lparr>vx := fl (- fl (launchAngle g3 - 0.5) * 0.5)\<rparr>\<rparr>))"

text \<open>\<open>onMouseUp\<close> (lines 839-853).\<close>

definition onMouseUp :: "real \<Rightarrow> game \<Rightarrow> outcome" where
  "onMouseUp rnd g =
     (if \<not> isDragging g \<or> gameState g \<noteq> Pulling then Inr g
      else
        (let g1 = g\<lparr>isDragging := False\<rparr>
         in if pullDistance g1 < MIN_PULL_DISTANCE
            then Inr ((resetPlanePosition g1)\<lparr>gameState := Ready\<rparr>)
            else launch rnd g1))"

section \<open>Upgrade purchase\<close>

text \<open>
  \<open>purchaseUpgrade\<close> (lines 1509-1534), without the menu and the plane's visuals.  The
  read \<open>upgrade.tiers[currentTier]\<close> is behind the test \<open>currentTier >= upgrade.maxTier\<close>,
  and every table has \<open>maxTier\<close> entries (lemma \<open>catalog_length\<close>), so it is in range.
  The difference \<open>coins -= cost\<close> is rounded.
\<close>

definition purchaseUpgrade :: "UpgradeKey \<Rightarrow> game \<Rightarrow> game" where
  "purchaseUpgrade key g =
     (let upgrade = UPGRADES key;
          currentTier = upgrades g key
      in if currentTier \<ge> maxTier upgrade then g
         else
           (let tierCost = cost (tiers upgrade ! currentTier)
            in if coins g < tierCost then g
               else if (case requires upgrade of
                          Some requiredUpgrade \<Rightarrow> upgrades g requiredUpgrade = 0
                        | None \<Rightarrow> False)
               then g
               else saveProgress (g\<lparr>coins := dblInt (coins g - tierCost),
                                     upgrades := (upgrades g)(key := upgrades g key + 1)\<rparr>)))"

section \<open>Loading stored progress\<close>

text \<open>
  \<open>loadProgress\<close> (lines 1342-1355) reads whatever text the store holds; TypeScript's
  types are erased at run time and \<open>JSON.parse\<close> returns \<open>any\<close>.  For this function the
  values are therefore JavaScript values, and the three variables it assigns (\<open>coins\<close>,
  \<open>upgrades\<close>, \<open>checkpoints\<close>) hold such values.
\<close>

datatype js =
    JUndefined
  | JNull
  | JBool bool
  | JNum real
  | JStr string
  | JArr "js list"
  | JObj "(string \<times> js) list"

text \<open>
  The stored item, by what \<open>JSON.parse\<close> does with its text: the empty string (falsy, so
  never parsed), a text that is not JSON (\<open>JSON.parse\<close> throws a SyntaxError), or a text
  that parses to a value.  \<open>localStorage.getItem\<close> returns \<open>null\<close> (\<open>None\<close>) when nothing
  is stored.
\<close>

datatype item = EmptyString | NotJSON | JSONText js

fun truthy :: "js \<Rightarrow> bool" where
  "truthy JUndefined = False"
| "truthy JNull = False"
| "truthy (JBool b) = b"
| "truthy (JNum n) = (n \<noteq> 0)"
| "truthy (JStr s) = (s \<noteq> [])"
| "truthy (JArr xs) = True"
| "truthy (JObj kvs) = True"

text \<open>
  \<open>data[name]\<close> for the names the loader reads.  On \<open>null\<close> and \<open>undefined\<close> a property
  read throws a TypeError; numbers, booleans, strings and arrays have no property of these
  names, so the read gives \<open>undefined\<close>.
\<close>

fun getProp :: "js \<Rightarrow> string \<Rightarrow> error + js" where
  "getProp JUndefined name = Inl TypeError"
| "getProp JNull name = Inl TypeError"
| "getProp (JObj kvs) name = Inr (case map_of kvs name of Some v \<Rightarrow> v | None \<Rightarrow> JUndefined)"
| "getProp (JBool b) name = Inr JUndefined"
| "getProp (JNum n) name = Inr JUndefined"
| "getProp (JStr s) name = Inr JUndefined"
| "getProp (JArr xs) name = Inr JUndefined"

text \<open>Decimal digits of an array index, the property name of an element.\<close>

fun showNat :: "nat \<Rightarrow> string" where
  "showNat n =
     (if n < 10 then [char_of (48 + n)]
      else showNat (n div 10) @ [char_of (48 + n mod 10)])"

text \<open>
  The own enumerable properties \<open>Object.assign\<close> copies from a source: those of an object,
  the elements of an array and the characters of a string under their indices, none of a
  number or a boolean.
\<close>

fun ownProps :: "js \<Rightarrow> (string \<times> js) list" where
  "ownProps (JObj kvs) = kvs"
| "ownProps (JArr xs) = zip (map showNat [0..<length xs]) xs"
| "ownProps (JStr s) = zip (map showNat [0..<length s]) (map (\<lambda>c. JStr [c]) s)"
| "ownProps (JNum n) = []"
| "ownProps (JBool b) = []"
| "ownProps JNull = []"
| "ownProps JUndefined = []"

fun setProp :: "string \<Rightarrow> js \<Rightarrow> (string \<times> js) list \<Rightarrow> (string \<times> js) list" where
  "setProp k v [] = [(k, v)]"
| "setProp k v ((k', v') # rest) =
     (if k = k' then (k, v) # rest else (k', v') # setProp k v rest)"

text \<open>
  \<open>Object.assign(target, source)\<close> assigns each own property of the source to the target
  in order.  The assignment to the key \<open>__proto__\<close> goes to the setter of
  \<open>Object.prototype\<close>: it replaces the target's prototype at most and adds no property.
\<close>

definition objectAssign :: "(string \<times> js) list \<Rightarrow> js \<Rightarrow> (string \<times> js) list" where
  "objectAssign target source =
     foldl (\<lambda>t (k, v). if k = ''__proto__'' then t else setProp k v t) target (ownProps source)"

record progress =
  p_coins :: js
  p_upgrades :: "(string \<times> js) list"
  p_checkpoints :: "(string \<times> js) list"

text \<open>The initial values of the three variables (lines 65, 70-77 and 80-85).\<close>

definition initialProgress :: progress where
  "initialProgress =
     \<lparr>p_coins = JNum 0,
      p_upgrades = [(''wings'', JNum 0), (''wheels'', JNum 0), (''tail'', JNum 0),
                    (''aerodynamic'', JNum 0), (''slingshot'', JNum 0), (''boosters'', JNum 0)],
      p_checkpoints = [(''runway'', JBool True), (''city'', JBool False),
                       (''desert'', JBool False), (''forest'', JBool False)]\<rparr>"

text \<open>
  \<open>loadProgress\<close> (lines 1342-1355), without the checkpoint buttons.  There is no
  \<open>try\<close>/\<open>catch\<close> in it or around its call in \<open>init\<close> (line 239), so an exception of
  \<open>JSON.parse\<close> or of a property read reaches the caller: \<open>Inl\<close>.
\<close>

definition loadProgress :: "item option \<Rightarrow> progress \<Rightarrow> error + progress" where
  "loadProgress saved p =
     (case saved of
        None \<Rightarrow> Inr p
      | Some EmptyString \<Rightarrow> Inr p
      | Some NotJSON \<Rightarrow> Inl SyntaxError
      | Some (JSONText data) \<Rightarrow>
          (case getProp data ''coins'' of
             Inl e \<Rightarrow> Inl e
           | Inr c \<Rightarrow>
               (let p1 = p\<lparr>p_coins := (if truthy c then c else JNum 0)\<rparr>
                in case getProp data ''upgrades'' of
                     Inl e \<Rightarrow> Inl e
                   | Inr u \<Rightarrow>
                       (let p2 = (if truthy u
                                  then p1\<lparr>p_upgrades := objectAssign (p_upgrades p1) u\<rparr>
                                  else p1)
                        in case getProp data ''checkpoints'' of
                             Inl e \<Rightarrow> Inl e
                           | Inr k \<Rightarrow>
                               Inr (if truthy k
                                    then p2\<lparr>p_checkpoints := objectAssign (p_checkpoints p2) k\<rparr>
                                    else p2)))))"

section \<open>Concrete states used in the examples\<close>

text \<open>The initial values of the module-level variables (lines 64-136).\<close>

definition initialGame :: game where
  "initialGame =
     \<lparr>gameState = Ready, coins = 0, distance = 0, boosterUsesRemaining = 0,
      upgrades = (\<lambda>k. 0), checkpoints = (\<lambda>k. k = runway), currentCheckpoint = runway,
      highestDistanceThisRun = 0, startingZ = 0,
      keys = \<lparr>left = False, right = False, up = False, down = False, boost = False\<rparr>,
      obstacles = [], velocity = vec3 0 0 0, angularVelocity = vec3 0 0 0,
      position = vec3 0 1 0, rotation = vec3 0 0 0,
      isDragging = False, pullDistance = 0, launchAngle = 0.5,
      pullStart = \<lparr>px = 0, py = 0\<rparr>, pullCurrent = \<lparr>px = 0, py = 0\<rparr>,
      slingshotPosition = vec3 0 0 0, localStorage = None, setItemCalls = 0\<rparr>"

text \<open>
  A box for the plane to stand for \<open>setFromObject(plane)\<close> in the examples: the box
  around the three meshes of \<open>createPlane\<close> (lines 350-391) for a plane that is not
  rotated.  The fuselage is 0.4 wide, 0.3 high and 2 long; the nose cone (radius 0.18)
  reaches 1.6 ahead of the centre; the tail fin reaches 0.45 above and 1.3 behind it.
\<close>

definition planeMeshesBox :: "game \<Rightarrow> Box3" where
  "planeMeshesBox g =
     \<lparr>box_min = vec3 (vx (position g) - 0.2) (vy (position g) - 0.18) (vz (position g) - 1.3),
      box_max = vec3 (vx (position g) + 0.2) (vy (position g) + 0.45) (vz (position g) + 1.6)\<rparr>"

text \<open>
  A plane without upgrades that rolls along the ground at 0.5 per second, \<open>z\<close> from the
  slingshot, among the obstacles \<open>obs\<close>; and the same plane one tick of 3/160 s later.
\<close>

definition rolling :: "real \<Rightarrow> Obstacle list \<Rightarrow> game" where
  "rolling z obs =
     initialGame\<lparr>gameState := Flying, obstacles := obs, distance := z,
                 highestDistanceThisRun := z,
                 position := vec3 0 0.15 z, velocity := vec3 0 0 0.5\<rparr>"

definition rolled :: "real \<Rightarrow> Obstacle list \<Rightarrow> game" where
  "rolled z obs =
     (rolling z obs)\<lparr>velocity := vec3 0 0 0.48992822265625,
                      position := vec3 0 0.15 (z + 0.009373626708984375),
                      distance := max 0 (z + 0.009373626708984375),
                      highestDistanceThisRun := max z (z + 0.009373626708984375)\<rparr>"

text \<open>
  A runway worker standing at \<open>z\<close> on the centre line, with the box around the meshes of
  \<open>createPerson\<close> (lines 476-510): 0.5 wide, 2 high, 0.5 deep.
\<close>

definition person :: "real \<Rightarrow> Obstacle" where
  "person z =
     \<lparr>mesh_position = vec3 0 0 z,
      boundingBox = \<lparr>box_min = vec3 (- 0.25) 0 (z - 0.25), box_max = vec3 0.25 2 (z + 0.25)\<rparr>,
      otype = ''person''\<rparr>"

text \<open>The state after the pointer went down at (0, 0) on a fresh game.\<close>

definition pulling :: game where
  "pulling = onMouseDown 0 0 initialGame"

section \<open>Facts about rounding\<close>

text \<open>
  Rounding is monotone and leaves whole numbers of magnitude up to 2^53 as they are.
\<close>

lemma rne_of_int [simp]: "rne (of_int n) = n"
  by (simp add: rne_def)

lemma rne_bounds: "\<lfloor>r\<rfloor> \<le> rne r \<and> rne r \<le> \<lfloor>r\<rfloor> + 1"
  by (simp add: rne_def Let_def)

lemma rne_mono: "a \<le> b \<Longrightarrow> rne a \<le> rne b"
proof -
  assume ab: "a \<le> b"
  have fab: "\<lfloor>a\<rfloor> \<le> \<lfloor>b\<rfloor>" using ab by (rule floor_mono)
  show ?thesis
  proof (cases "\<lfloor>a\<rfloor> = \<lfloor>b\<rfloor>")
    case True
    then have "a - of_int \<lfloor>a\<rfloor> \<le> b - of_int \<lfloor>b\<rfloor>" using ab by simp
    then show ?thesis using True by (auto simp: rne_def Let_def)
  next
    case False
    then have "\<lfloor>a\<rfloor> + 1 \<le> \<lfloor>b\<rfloor>" using fab by simp
    then show ?thesis using rne_bounds [of a] rne_bounds [of b] by linarith
  qed
qed

lemma powr2_int: "(2::real) powr (of_int k) = 2 powi k"
  by (simp add: powr_real_of_int')

lemma powr2_int1: "(2::real) powr (of_int k + 1) = 2 powi (k + 1)"
  using powr2_int [of "k + 1"] by simp

lemma log2_bounds:
  assumes "0 < x"
  shows "2 powi \<lfloor>log 2 x\<rfloor> \<le> x" and "x < 2 powi (\<lfloor>log 2 x\<rfloor> + 1)"
  using floor_log_eq_powr_iff [of x 2 "\<lfloor>log 2 x\<rfloor>"] assms
  by (simp_all add: powr2_int powr2_int1)

lemma floor_log2_eq:
  assumes "2 powi k \<le> x" and "x < 2 powi (k + 1)"
  shows "\<lfloor>log 2 x\<rfloor> = k"
proof -
  have "0 < (2::real) powi k" by simp
  then have "0 < x" using assms(1) by linarith
  then show ?thesis
    using floor_log_eq_powr_iff [of x 2 k] assms by (simp add: powr2_int powr2_int1)
qed

lemma expo_mono: "0 < x \<Longrightarrow> x \<le> y \<Longrightarrow> expo x \<le> expo y"
  unfolding expo_def by (intro max.mono floor_mono) simp_all

lemma expo_upper: "0 < x \<Longrightarrow> x < 2 powi (expo x + 1)"
proof -
  assume x: "0 < x"
  have "(2::real) powi (\<lfloor>log 2 x\<rfloor> + 1) \<le> 2 powi (expo x + 1)"
    by (intro power_int_increasing) (simp_all add: expo_def)
  then show ?thesis using log2_bounds(2) [OF x] by linarith
qed

lemma expo_lower: "0 < x \<Longrightarrow> - 1022 < expo x \<Longrightarrow> 2 powi (expo x) \<le> x"
  using log2_bounds(1) [of x] by (simp add: expo_def max_def split: if_splits)

lemma expo_ge: "- 1022 \<le> expo x"
  by (simp add: expo_def)

lemma scale_split:
  "(9007199254740992::real) * 2 powi (e - 52) = 2 powi (e + 1)"
  "(4503599627370496::real) * 2 powi (e - 52) = 2 powi e"
  using power_int_add [of "2::real" 53 "e - 52"] power_int_add [of "2::real" 52 "e - 52"]
  by (simp_all add: add.commute)

lemma flpos_nonneg: "0 \<le> x \<Longrightarrow> 0 \<le> flpos x"
proof -
  assume x: "0 \<le> x"
  have "0 \<le> x / 2 powi (expo x - 52)" using x by simp
  then have "rne 0 \<le> rne (x / 2 powi (expo x - 52))" by (rule rne_mono)
  then have "0 \<le> rne (x / 2 powi (expo x - 52))" using rne_of_int [of 0] by simp
  then show ?thesis by (simp add: flpos_def)
qed

lemma flpos_upper: assumes "0 < x" shows "flpos x \<le> 2 powi (expo x + 1)"
proof -
  let ?u = "(2::real) powi (expo x - 52)"
  have u: "0 < ?u" by simp
  have "x < 9007199254740992 * ?u" using expo_upper [OF assms] by (simp only: scale_split)
  then have "x / ?u \<le> of_int 9007199254740992" using u by (simp add: field_simps)
  then have "rne (x / ?u) \<le> rne (of_int 9007199254740992)" by (rule rne_mono)
  then have "rne (x / ?u) \<le> 9007199254740992" by (simp only: rne_of_int)
  then have "of_int (rne (x / ?u)) \<le> (9007199254740992::real)" by linarith
  then have "of_int (rne (x / ?u)) * ?u \<le> 9007199254740992 * ?u"
    using u by (simp only: mult_le_cancel_right_pos)
  then have "of_int (rne (x / ?u)) * ?u \<le> 2 powi (expo x + 1)" by (simp only: scale_split)
  then show ?thesis using assms by (simp add: flpos_def)
qed

lemma flpos_lower: assumes "0 < x" and "- 1022 < expo x" shows "2 powi (expo x) \<le> flpos x"
proof -
  let ?u = "(2::real) powi (expo x - 52)"
  have u: "0 < ?u" by simp
  have "4503599627370496 * ?u \<le> x" using expo_lower [OF assms] by (simp only: scale_split)
  then have "of_int 4503599627370496 \<le> x / ?u" using u by (simp add: field_simps)
  then have "rne (of_int 4503599627370496) \<le> rne (x / ?u)" by (rule rne_mono)
  then have "4503599627370496 \<le> rne (x / ?u)" by (simp only: rne_of_int)
  then have "(4503599627370496::real) \<le> of_int (rne (x / ?u))" by linarith
  then have "4503599627370496 * ?u \<le> of_int (rne (x / ?u)) * ?u"
    using u by (simp only: mult_le_cancel_right_pos)
  then have "2 powi (expo x) \<le> of_int (rne (x / ?u)) * ?u" by (simp only: scale_split)
  then show ?thesis using assms by (simp add: flpos_def)
qed

lemma flpos_mono: assumes "0 \<le> x" and "x \<le> y" shows "flpos x \<le> flpos y"
proof (cases "x = 0")
  case True
  then show ?thesis using flpos_nonneg [of y] assms by (simp add: flpos_def)
next
  case False
  then have x: "0 < x" and y: "0 < y" using assms by simp_all
  show ?thesis
  proof (cases "expo x = expo y")
    case True
    let ?u = "(2::real) powi (expo y - 52)"
    have "x / ?u \<le> y / ?u" using assms by (simp add: divide_right_mono)
    then have "rne (x / ?u) \<le> rne (y / ?u)" by (rule rne_mono)
    then have "of_int (rne (x / ?u)) * ?u \<le> of_int (rne (y / ?u)) * ?u" by simp
    then show ?thesis using x y True by (simp add: flpos_def)
  next
    case False
    then have lt: "expo x + 1 \<le> expo y" using expo_mono [OF x assms(2)] by simp
    then have big: "- 1022 < expo y" using expo_ge [of x] by linarith
    have "flpos x \<le> 2 powi (expo x + 1)" by (rule flpos_upper [OF x])
    also have "\<dots> \<le> 2 powi (expo y)" using lt by (intro power_int_increasing) simp_all
    also have "\<dots> \<le> flpos y" by (rule flpos_lower [OF y big])
    finally show ?thesis .
  qed
qed

lemma fl_mono: "x \<le> y \<Longrightarrow> fl x \<le> fl y"
  using flpos_mono [of x y] flpos_mono [of "- y" "- x"] flpos_nonneg [of y] flpos_nonneg [of "- x"]
  by (auto simp: fl_def)

lemma fl_minus: "fl (- x) = - fl x"
  by (simp add: fl_def flpos_def)

lemma expo_eq: "2 powi k \<le> x \<Longrightarrow> x < 2 powi (k + 1) \<Longrightarrow> - 1022 \<le> k \<Longrightarrow> expo x = k"
  by (simp add: expo_def floor_log2_eq)

lemma fl_eval:
  assumes "2 powi k \<le> x" and "x < 2 powi (k + 1)" and "- 1022 \<le> k"
  shows "fl x = of_int (rne (x / 2 powi (k - 52))) * 2 powi (k - 52)"
proof -
  have "0 < (2::real) powi k" by simp
  then have "0 < x" using assms(1) by linarith
  then show ?thesis using expo_eq [OF assms] by (simp add: fl_def flpos_def)
qed

lemma fl_0 [simp]: "fl 0 = 0"
  by (simp add: fl_def flpos_def)

lemma fl_04: "fl 0.4 = 3602879701896397 / 2 ^ 53"
  by (subst fl_eval [where k = "- 2"]) (simp_all add: rne_def)

lemma fl_01: "fl 0.1 = 3602879701896397 / 2 ^ 55"
  by (subst fl_eval [where k = "- 4"]) (simp_all add: rne_def)

lemma fl_09: "fl 0.9 = 8106479329266893 / 2 ^ 53"
  by (subst fl_eval [where k = "- 1"]) (simp_all add: rne_def)

lemma fl_exact:
  assumes "0 < x" and "x = of_int m * 2 powi (expo x - 52)"
  shows "fl x = x"
proof -
  have "x / 2 powi (expo x - 52) = of_int m"
    using assms(2) by (metis nonzero_eq_divide_eq power_int_eq_0_iff zero_neq_numeral)
  then show ?thesis using assms by (simp add: fl_def flpos_def)
qed

lemma fl_of_int_pos:
  assumes "0 < n" and "n \<le> 2 ^ 53"
  shows "fl (of_int n) = of_int n"
proof -
  let ?x = "real_of_int n"
  define e where "e = \<lfloor>log 2 ?x\<rfloor>"
  have x: "0 < ?x" "1 \<le> ?x" "?x \<le> 2 powi 53" using assms by simp_all
  have lo: "2 powi e \<le> ?x" and hi: "?x < 2 powi (e + 1)"
    using log2_bounds [OF x(1)] by (simp_all add: e_def)
  have e0: "0 \<le> e"
  proof (rule ccontr)
    assume "\<not> 0 \<le> e"
    then have "(2::real) powi (e + 1) \<le> 2 powi 0" by (intro power_int_increasing) simp_all
    then show False using hi x(2) by simp
  qed
  have e53: "e \<le> 53"
  proof (rule ccontr)
    assume "\<not> e \<le> 53"
    then have "(2::real) powi 54 \<le> 2 powi e" by (intro power_int_increasing) simp_all
    then show False using lo x(3) by simp
  qed
  have ex: "expo ?x = e" using e0 by (simp add: expo_def e_def)
  show ?thesis
  proof (cases "e \<le> 52")
    case True
    define k where "k = nat (52 - e)"
    have k: "int k = 52 - e" using True by (simp add: k_def)
    have "(2::real) powi (e - 52) * 2 powi (int k) = 2 powi 0"
      unfolding k by (simp flip: power_int_add)
    then have one: "(2::real) ^ k * 2 powi (e - 52) = 1" by (simp add: mult.commute)
    have "?x = of_int (n * 2 ^ k) * 2 powi (expo ?x - 52)"
      unfolding ex using one by (simp add: mult.assoc)
    then show ?thesis by (rule fl_exact [OF x(1)])
  next
    case False
    then have e: "e = 53" using e53 by simp
    then have "?x = 2 powi 53" using lo x(3) by simp
    then have "?x = of_int (2 ^ 52) * 2 powi (expo ?x - 52)" unfolding ex e by simp
    then show ?thesis by (rule fl_exact [OF x(1)])
  qed
qed

lemma fl_of_int: "\<bar>n\<bar> \<le> 2 ^ 53 \<Longrightarrow> fl (of_int n) = of_int n"
  using fl_of_int_pos [of n] fl_of_int_pos [of "- n"] fl_minus [of "of_int n"]
  by (cases "n = 0"; cases "0 < n") (simp_all add: abs_if)

lemma dblInt_exact: "\<bar>n\<bar> \<le> 2 ^ 53 \<Longrightarrow> dblInt n = n"
  by (simp add: dblInt_def fl_of_int)

lemma fl_numeral: "numeral w \<le> (2 ^ 53 :: int) \<Longrightarrow> fl (numeral w) = numeral w"
  using fl_of_int [of "numeral w"] by simp

lemma fl_1 [simp]: "fl 1 = 1"
  using fl_of_int [of 1] by simp

lemma dblInt_absorb: "dblInt (2 ^ 70 + 10000) = 2 ^ 70" "dblInt (2 ^ 70) = 2 ^ 70"
  "dblInt (2 ^ 70 - 100) = 2 ^ 70"
  unfolding dblInt_def
  by ((subst fl_eval [where k = 70], simp, simp, simp, simp add: rne_def)
      | (subst fl_eval [where k = 69], simp, simp, simp, simp add: rne_def))+

section \<open>Facts about the catalog and the store\<close>

lemma catalog_length: "length (tiers (UPGRADES k)) = maxTier (UPGRADES k)"
  by (cases k) simp_all

lemma catalog_maxTier: "maxTier (UPGRADES k) = 10"
  by (cases k) simp_all

lemma stats_present:
  "t \<in> set (tiers (UPGRADES wings)) \<Longrightarrow> {''lift'', ''control''} \<subseteq> fst ` set (stats t)"
  "t \<in> set (tiers (UPGRADES wheels)) \<Longrightarrow> ''friction'' \<in> fst ` set (stats t)"
  "t \<in> set (tiers (UPGRADES tail)) \<Longrightarrow> ''pitch'' \<in> fst ` set (stats t)"
  "t \<in> set (tiers (UPGRADES aerodynamic)) \<Longrightarrow> ''dragReduction'' \<in> fst ` set (stats t)"
  "t \<in> set (tiers (UPGRADES slingshot)) \<Longrightarrow> ''power'' \<in> fst ` set (stats t)"
  "t \<in> set (tiers (UPGRADES boosters)) \<Longrightarrow> {''uses'', ''boost''} \<subseteq> fst ` set (stats t)"
  by (auto simp: tier1_def tier2_def)

lemma saveProgress_fields [simp]:
  "gameState (saveProgress g) = gameState g"
  "coins (saveProgress g) = coins g"
  "distance (saveProgress g) = distance g"
  "position (saveProgress g) = position g"
  "velocity (saveProgress g) = velocity g"
  "startingZ (saveProgress g) = startingZ g"
  "checkpoints (saveProgress g) = checkpoints g"
  "upgrades (saveProgress g) = upgrades g"
  "obstacles (saveProgress g) = obstacles g"
  "setItemCalls (saveProgress g) = Suc (setItemCalls g)"
  by (simp_all add: saveProgress_def)

lemma crash_fields [simp]:
  "gameState (crash g) = Crashed"
  "coins (crash g) = dblInt (coins g + \<lfloor>distance g\<rfloor>)"
  "distance (crash g) = distance g"
  "position (crash g) = position g"
  "velocity (crash g) = velocity g"
  "setItemCalls (crash g) = Suc (setItemCalls g)"
  by (simp_all add: crash_def Let_def)

lemma victory_fields [simp]:
  "gameState (victory g) = Crashed"
  "coins (victory g) = dblInt (coins g + dblInt (\<lfloor>distance g\<rfloor> + 10000))"
  "distance (victory g) = distance g"
  "setItemCalls (victory g) = Suc (setItemCalls g)"
  by (simp_all add: victory_def Let_def)

lemma checkAndUnlock_fields [simp]:
  "gameState (checkAndUnlockCheckpoints g) = gameState g"
  "coins (checkAndUnlockCheckpoints g) = coins g"
  "distance (checkAndUnlockCheckpoints g) = distance g"
  "position (checkAndUnlockCheckpoints g) = position g"
  "velocity (checkAndUnlockCheckpoints g) = velocity g"
  "startingZ (checkAndUnlockCheckpoints g) = startingZ g"
  "obstacles (checkAndUnlockCheckpoints g) = obstacles g"
  by (simp_all add: checkAndUnlockCheckpoints_def Let_def)

lemma scanObstacles_cases:
  "scanObstacles b g obs = g \<or> scanObstacles b g obs = crash g"
  by (induction obs) (auto simp: handleCollision_def)

lemma checkObstacleCollisions_cases:
  "checkObstacleCollisions b g = g \<or> checkObstacleCollisions b g = crash g"
  using scanObstacles_cases [of b g "obstacles g"]
  by (auto simp: checkObstacleCollisions_def)

lemma checkObstacleCollisions_fields [simp]:
  "distance (checkObstacleCollisions b g) = distance g"
  "position (checkObstacleCollisions b g) = position g"
  "velocity (checkObstacleCollisions b g) = velocity g"
  using checkObstacleCollisions_cases [of b g] by auto

lemma unlock_noop:
  assumes "startingZ g + distance g \<ge> 100 \<longrightarrow> checkpoints g city"
      and "startingZ g + distance g \<ge> 1000 \<longrightarrow> checkpoints g desert"
      and "startingZ g + distance g \<ge> 3000 \<longrightarrow> checkpoints g forest"
  shows "checkAndUnlockCheckpoints g = g"
  using assms
  by (cases "startingZ g + distance g \<ge> 100"; cases "startingZ g + distance g \<ge> 1000";
      cases "startingZ g + distance g \<ge> 3000"; simp add: checkAndUnlockCheckpoints_def Let_def)

lemma unlock_setItemCalls:
  "setItemCalls (checkAndUnlockCheckpoints g) =
     (if (startingZ g + distance g \<ge> 100 \<and> \<not> checkpoints g city) \<or>
         (startingZ g + distance g \<ge> 1000 \<and> \<not> checkpoints g desert) \<or>
         (startingZ g + distance g \<ge> 3000 \<and> \<not> checkpoints g forest)
      then Suc (setItemCalls g) else setItemCalls g)"
  by (simp add: checkAndUnlockCheckpoints_def Let_def)

lemma unlock_checkpoints:
  "checkpoints (checkAndUnlockCheckpoints g) k =
     (checkpoints g k \<or>
      (k = city \<and> startingZ g + distance g \<ge> 100) \<or>
      (k = desert \<and> startingZ g + distance g \<ge> 1000) \<or>
      (k = forest \<and> startingZ g + distance g \<ge> 3000))"
  by (cases k; simp add: checkAndUnlockCheckpoints_def Let_def; blast)

section \<open>One tick of the rolling plane\<close>

lemma sqrt_25_64: "sqrt (25 / 64) = 5 / 8"
  using real_sqrt_abs [of "5 / 8"] by (simp add: power2_eq_square)

lemma tierStats_0 [simp]: "tierStats k 0 = None"
  by (simp add: tierStats_def)

lemma controls_rolling: "applyControls dt (rolling z obs) = rolling z obs"
  by (simp add: applyControls_def rolling_def initialGame_def)

lemma gravity_rolling:
  "applyGravityLift (3 / 160) (rolling z obs) = (rolling z obs)\<lparr>velocity := vec3 0 (- 3 / 8) 0.5\<rparr>"
  by (simp add: applyGravityLift_def rolling_def initialGame_def GRAVITY_def vec3_def)

lemma drag_rolling:
  "applyDrag 0 (3 / 160) (vec3 0 (- 3 / 8) 0.5) = vec3 0 (- 0.374945068359375) 0.4999267578125"
  by (simp add: applyDrag_def length3_def vec3_def multiplyScalar_def BASE_DRAG_def sqrt_25_64)

lemma integrate_rolling: "integrate rnd (3 / 160) (rolling z obs) = rolled z obs"
proof -
  let ?g2 = "(rolling z obs)\<lparr>velocity := vec3 0 (- 3 / 8) 0.5\<rparr>"
  let ?g3 = "(rolling z obs)\<lparr>velocity := vec3 0 (- 0.374945068359375) 0.4999267578125\<rparr>"
  let ?g4 = "?g3\<lparr>position := vec3 0 0.14296977996826171875 (z + 0.009373626708984375)\<rparr>"
  have u: "upgrades (rolling z obs) = (\<lambda>k. 0)"
    by (simp add: rolling_def initialGame_def)
  have a: "?g2\<lparr>velocity := applyDrag (upgrades ?g2 aerodynamic) (3 / 160) (velocity ?g2)\<rparr> = ?g3"
    using drag_rolling by (simp add: u)
  have b: "updatePosition (3 / 160) ?g3 = ?g4"
    by (simp add: updatePosition_def rolling_def initialGame_def vec3_def add3_def multiplyScalar_def)
  have c: "updateRotation (3 / 160) ?g4 = ?g4"
    by (simp add: updateRotation_def rolling_def initialGame_def vec3_def)
  have d: "groundCollision rnd ?g4 =
             ?g4\<lparr>position := vec3 0 0.15 (z + 0.009373626708984375),
                  velocity := vec3 0 0 0.48992822265625\<rparr>"
    by (simp add: groundCollision_def rolling_def initialGame_def vec3_def PLANE_HEIGHT_def)
  have e: "updateDistance (?g4\<lparr>position := vec3 0 0.15 (z + 0.009373626708984375),
                               velocity := vec3 0 0 0.48992822265625\<rparr>) = rolled z obs"
    by (simp add: updateDistance_def rolled_def rolling_def initialGame_def vec3_def)
  show ?thesis
    unfolding integrate_def Let_def controls_rolling gravity_rolling a b c d e ..
qed

lemma length3_z: "length3 (vec3 0 0 a) = \<bar>a\<bar>"
  by (simp add: length3_def vec3_def)

lemma rolled_fields:
  "gameState (rolled z obs) = Flying"
  "coins (rolled z obs) = 0"
  "startingZ (rolled z obs) = 0"
  "obstacles (rolled z obs) = obs"
  "setItemCalls (rolled z obs) = 0"
  "distance (rolled z obs) = max 0 (z + 0.009373626708984375)"
  "position (rolled z obs) = vec3 0 0.15 (z + 0.009373626708984375)"
  "velocity (rolled z obs) = vec3 0 0 0.48992822265625"
  "checkpoints (rolled z obs) = (\<lambda>k. k = runway)"
  by (simp_all add: rolled_def rolling_def initialGame_def)

lemma rolling_Flying: "gameState (rolling z obs) = Flying"
  by (simp add: rolling_def)

text \<open>The run distance is never negative once a tick has run.\<close>

lemma integrate_distance_nonneg: "0 \<le> distance (integrate rnd dt g)"
  by (simp add: integrate_def updateDistance_def Let_def)

lemma updatePhysics_distance_nonneg:
  "0 \<le> distance g \<Longrightarrow> 0 \<le> distance (updatePhysics b rnd dt g)"
  by (simp add: updatePhysics_def Let_def integrate_distance_nonneg)

lemma sqrt_6400: "sqrt 6400 = 80"
  using real_sqrt_abs [of 80] by simp

lemma sqrt_8384: "sqrt (83.84 * 83.84) = (83.84::real)"
  using real_sqrt_abs2 [of "83.84"] by simp

text \<open>
  Where the drag step does decay: for a time step that is not negative and small enough
  for the speed, the factor lies in [0, 1].
\<close>

lemma applyDrag_decays:
  assumes "0 \<le> dt"
      and "e = BASE_DRAG * (1 - (case tierStats aerodynamic lvl of
                                   Some a \<Rightarrow> stat a ''dragReduction'' | None \<Rightarrow> 0))"
      and "0 \<le> e"
      and "length3 v * length3 v * e * dt \<le> 1"
  shows "\<exists>c. 0 \<le> c \<and> c \<le> 1 \<and> applyDrag lvl dt v = multiplyScalar v c"
proof (cases "length3 v > 0")
  case True
  have "0 \<le> length3 v * length3 v * e * dt"
    using assms(1,3) by simp
  then show ?thesis
    using True assms(2,4)
    by (intro exI [of _ "1 - length3 v * length3 v * e * dt"]) (simp add: applyDrag_def Let_def)
next
  case False
  then have "applyDrag lvl dt v = multiplyScalar v 1"
    by (simp add: applyDrag_def Let_def multiplyScalar_def)
  then show ?thesis by (intro exI [of _ 1]) simp
qed

section \<open>Facts about purchases, victory and the launch angle\<close>

lemma cost_nonneg: "i < 10 \<Longrightarrow> 0 \<le> cost (tiers (UPGRADES k) ! i)"
proof -
  assume i: "i < 10"
  have "\<forall>t \<in> set (tiers (UPGRADES k)). 0 \<le> cost t"
    by (cases k) (simp_all add: tier1_def tier2_def)
  moreover have "tiers (UPGRADES k) ! i \<in> set (tiers (UPGRADES k))"
    using i by (intro nth_mem) (simp add: catalog_length catalog_maxTier)
  ultimately show ?thesis by blast
qed

lemma purchaseUpgrade_success:
  assumes "upgrades g key < maxTier (UPGRADES key)"
      and "\<not> coins g < cost (tiers (UPGRADES key) ! upgrades g key)"
      and "\<not> (\<exists>r. requires (UPGRADES key) = Some r \<and> upgrades g r = 0)"
  shows "purchaseUpgrade key g =
           saveProgress (g\<lparr>coins := dblInt (coins g - cost (tiers (UPGRADES key) ! upgrades g key)),
                            upgrades := (upgrades g)(key := upgrades g key + 1)\<rparr>)"
  using assms by (auto simp: purchaseUpgrade_def Let_def split: option.splits)

lemma purchase_exact:
  assumes "upgrades g key < maxTier (UPGRADES key)"
      and "\<not> coins g < cost (tiers (UPGRADES key) ! upgrades g key)"
      and "coins g \<le> 2 ^ 53"
  shows "dblInt (coins g - cost (tiers (UPGRADES key) ! upgrades g key)) =
           coins g - cost (tiers (UPGRADES key) ! upgrades g key)"
proof -
  have "0 \<le> cost (tiers (UPGRADES key) ! upgrades g key)"
    using assms(1) by (intro cost_nonneg) (simp add: catalog_maxTier)
  then show ?thesis using assms(2,3) by (intro dblInt_exact) simp
qed


lemma fl_04_fix: "fl (3602879701896397 / 2 ^ 53) = 3602879701896397 / 2 ^ 53"
  by (subst fl_eval [where k = "- 2"]) (simp_all add: rne_def)

lemma fl_angle_lo: "fl (1 / 2 - 3602879701896397 / 2 ^ 53) = 900719925474099 / 2 ^ 53"
  by (subst fl_eval [where k = "- 4"]) (simp_all add: rne_def)

lemma fl_angle_hi: "fl (1 / 2 + 3602879701896397 / 2 ^ 53) = 8106479329266893 / 2 ^ 53"
  by (subst fl_eval [where k = "- 1"]) (simp_all add: rne_def)

lemma fl_deg_lo1: "fl (900719925474099 / 2 ^ 53 * 50) = 5629499534213119 / 2 ^ 50"
  by (subst fl_eval [where k = 2]) (simp_all add: rne_def)

lemma fl_deg_lo2: "fl (15 + 5629499534213119 / 2 ^ 50) = 20"
  by (subst fl_eval [where k = 4]) (simp_all add: rne_def)

lemma fl_deg_hi1: "fl (8106479329266893 / 2 ^ 53 * 50) = 45"
  by (subst fl_eval [where k = 5]) (simp_all add: rne_def)

lemma fl_60: "fl (15 + 45) = 60"
  using fl_numeral [of "num.Bit0 (num.Bit0 (num.Bit1 (num.Bit1 (num.Bit1 num.One))))"] by simp

lemma angle_bounds_values:
  "0.5 - fl 0.4 = 900719925474099 / 2 ^ 53" "0.5 + fl 0.4 = 8106479329266893 / 2 ^ 53"
  using fl_04 by simp_all

lemma angle_step_bounds:
  assumes "- 1 \<le> a" and "a \<le> 1"
  shows "0.5 - fl 0.4 \<le> fl (0.5 + fl (a * fl 0.4))" and "fl (0.5 + fl (a * fl 0.4)) \<le> 0.5 + fl 0.4"
proof -
  let ?c = "3602879701896397 / 2 ^ 53 :: real"
  have c: "fl 0.4 = ?c" by (rule fl_04)
  have "- ?c \<le> a * ?c" "a * ?c \<le> ?c" using assms by simp_all
  then have "fl (- ?c) \<le> fl (a * ?c)" "fl (a * ?c) \<le> fl ?c" by (simp_all only: fl_mono)
  then have t: "- ?c \<le> fl (a * ?c)" "fl (a * ?c) \<le> ?c" by (simp_all only: fl_minus fl_04_fix)
  then have "1 / 2 - ?c \<le> 1 / 2 + fl (a * ?c)" "1 / 2 + fl (a * ?c) \<le> 1 / 2 + ?c" by simp_all
  then have "fl (1 / 2 - ?c) \<le> fl (1 / 2 + fl (a * ?c))" "fl (1 / 2 + fl (a * ?c)) \<le> fl (1 / 2 + ?c)"
    by (simp_all only: fl_mono)
  then have r: "900719925474099 / 2 ^ 53 \<le> fl (1 / 2 + fl (a * ?c))"
               "fl (1 / 2 + fl (a * ?c)) \<le> 8106479329266893 / 2 ^ 53"
    by (simp_all only: fl_angle_lo fl_angle_hi)
  show "0.5 - fl 0.4 \<le> fl (0.5 + fl (a * fl 0.4))" and "fl (0.5 + fl (a * fl 0.4)) \<le> 0.5 + fl 0.4"
    unfolding c using r by simp_all
qed

lemma degrees_bounds:
  assumes "0.5 - fl 0.4 \<le> p" and "p \<le> 0.5 + fl 0.4"
  shows "20 \<le> angleDegrees p" and "angleDegrees p \<le> 60"
proof -
  have p: "900719925474099 / 2 ^ 53 \<le> p" "p \<le> 8106479329266893 / 2 ^ 53"
    using assms fl_04 by simp_all
  then have "900719925474099 / 2 ^ 53 * 50 \<le> p * 50" "p * 50 \<le> 8106479329266893 / 2 ^ 53 * 50"
    by simp_all
  then have "fl (900719925474099 / 2 ^ 53 * 50) \<le> fl (p * 50)"
            "fl (p * 50) \<le> fl (8106479329266893 / 2 ^ 53 * 50)"
    by (simp_all only: fl_mono)
  then have "5629499534213119 / 2 ^ 50 \<le> fl (p * 50)" "fl (p * 50) \<le> 45"
    by (simp_all only: fl_deg_lo1 fl_deg_hi1)
  then have "15 + 5629499534213119 / 2 ^ 50 \<le> 15 + fl (p * 50)" "15 + fl (p * 50) \<le> 15 + 45"
    by simp_all
  then have "fl (15 + 5629499534213119 / 2 ^ 50) \<le> fl (15 + fl (p * 50))"
            "fl (15 + fl (p * 50)) \<le> fl (15 + 45)"
    by (simp_all only: fl_mono)
  then show "20 \<le> angleDegrees p" and "angleDegrees p \<le> 60"
    by (simp_all only: fl_deg_lo2 fl_60 angleDegrees_def)
qed

lemma onMouseMove_launchAngle:
  "launchAngle (onMouseMove x y g) =
     (if isDragging g \<and> gameState g = Pulling \<and>
         fl (sqrt (fl (fl (fl (x - px (pullStart g)) * fl (x - px (pullStart g))) +
                       fl (fl (y - py (pullStart g)) * fl (y - py (pullStart g)))))) > 10
      then fl (0.5 + fl (max (- 1) (min 1 (fl (- fl (x - px (pullStart g)) / 200))) * fl 0.4))
      else launchAngle g)"
  by (simp add: onMouseMove_def Let_def)

lemma nth_opt_mem: "nth_opt xs i = Some t \<Longrightarrow> t \<in> set xs"
  by (auto simp: nth_opt_def split: if_splits)

lemma slingshot_power:
  assumes "tierStat slingshot l ''power'' = Some m"
  shows "1 \<le> m"
proof -
  have a: "\<forall>t \<in> set (tiers (UPGRADES slingshot)). 1 \<le> stat t ''power''"
    by (simp add: tier1_def stat_def)
  obtain t where t: "nth_opt (tiers (UPGRADES slingshot)) (l - 1) = Some t" "m = stat t ''power''"
    using assms by (auto simp: tierStat_def split: option.splits)
  then have "t \<in> set (tiers (UPGRADES slingshot))"
    by (intro nth_opt_mem)
  then show ?thesis using a t(2) by blast
qed

lemma launch_velocity:
  assumes "launch rnd g = Inr g'"
  shows "\<exists>m. (if upgrades g slingshot > 0
               then tierStat slingshot (upgrades g slingshot) ''power'' else Some 1) = Some m \<and>
             1 \<le> m \<and>
             velocity g' =
               vec3 0
                 (sin (angleDegrees (launchAngle g) * (pi / 180)) *
                    (max 20 (pullDistance g * LAUNCH_POWER_MULTIPLIER) * m))
                 (cos (angleDegrees (launchAngle g) * (pi / 180)) *
                    (max 20 (pullDistance g * LAUNCH_POWER_MULTIPLIER) * m))"
proof (cases "upgrades g slingshot > 0")
  case True
  then obtain m where m: "tierStat slingshot (upgrades g slingshot) ''power'' = Some m"
    using assms by (auto simp: launch_def Let_def split: option.splits)
  then have "1 \<le> m" by (rule slingshot_power)
  then show ?thesis
    using assms True m by (auto simp: launch_def Let_def split: option.splits)
next
  case False
  then show ?thesis
    using assms by (auto simp: launch_def Let_def split: option.splits)
qed

lemma sqrt_40000: "sqrt 40000 = 200"
  using real_sqrt_abs [of 200] by simp

lemma pulling_fields:
  "isDragging pulling" "gameState pulling = Pulling" "pullStart pulling = \<lparr>px = 0, py = 0\<rparr>"
  "launchAngle pulling = 0.5"
  by (simp_all add: pulling_def onMouseDown_def initialGame_def)

lemma right_drag: "launchAngle (onMouseMove 200 0 pulling) = 900719925474099 / 2 ^ 53"
proof -
  have "fl (0.5 + - (3602879701896397 / 2 ^ 53)) = 900719925474099 / 2 ^ 53"
    by (subst fl_eval [where k = "- 4"]) (simp_all add: rne_def)
  then have "fl (0.5 + fl (- 1 * fl 0.4)) = 900719925474099 / 2 ^ 53"
    by (simp only: mult_minus1 fl_minus fl_04 fl_04_fix)
  then show ?thesis
    by (simp add: onMouseMove_launchAngle pulling_fields fl_numeral fl_minus sqrt_40000)
qed

lemma left_drag: "launchAngle (onMouseMove (- 200) 0 pulling) = 8106479329266893 / 2 ^ 53"
proof -
  have "fl (0.5 + 3602879701896397 / 2 ^ 53) = 8106479329266893 / 2 ^ 53"
    by (subst fl_eval [where k = "- 1"]) (simp_all add: rne_def)
  then have "fl (0.5 + fl (1 * fl 0.4)) = 8106479329266893 / 2 ^ 53"
    by (simp only: mult_1 fl_04 fl_04_fix)
  then show ?thesis
    by (simp add: onMouseMove_launchAngle pulling_fields fl_numeral fl_minus sqrt_40000)
qed

section \<open>The claims\<close>

subsection \<open>C1: the drag step\<close>

text \<open>
  C1 says that for every velocity and every time step of at most 0.1 s the drag step
  rescales the velocity by a factor in [0, 1], for every aerodynamic tier.  The code
  multiplies by \<open>1 - speed\<^sup>2 * effectiveDrag * deltaTime\<close> and does not bound that factor
  below.  At speed 80 (a full pull of the slingshot without upgrades) and a frame of
  16 ms the factor is -1.048 without the aerodynamic upgrade and -0.024 at tier 10: the
  velocity is reversed, and without the upgrade the speed grows from 80 to 83.84.
\<close>

theorem applyDrag_reverses_velocity:
  "frameDeltaTime 16 0 = 0.016 \<and>
   length3 (vec3 0 48 64) = 80 \<and>
   applyDrag 0 (frameDeltaTime 16 0) (vec3 0 48 64) = vec3 0 (- 50.304) (- 67.072) \<and>
   length3 (vec3 0 (- 50.304) (- 67.072)) = 83.84 \<and>
   applyDrag 10 (frameDeltaTime 16 0) (vec3 0 48 64) = vec3 0 (- 1.152) (- 1.536)"
proof -
  have t10: "tierStats aerodynamic 10 = Some (tier1 5500 ''dragReduction'' 0.5)"
    by (simp add: tierStats_def nth_opt_def)
  have a: "applyDrag 0 (frameDeltaTime 16 0) (vec3 0 48 64) = vec3 0 (- 50.304) (- 67.072)"
    by (simp add: applyDrag_def frameDeltaTime_def vec3_def length3_def multiplyScalar_def
                  BASE_DRAG_def sqrt_6400)
  have b: "applyDrag 10 (frameDeltaTime 16 0) (vec3 0 48 64) = vec3 0 (- 1.152) (- 1.536)"
    by (simp add: applyDrag_def t10 stat_def tier1_def frameDeltaTime_def vec3_def length3_def
                  multiplyScalar_def BASE_DRAG_def sqrt_6400)
  have c: "length3 (vec3 0 (- 50.304) (- 67.072)) = 83.84"
  proof -
    have "(50.304::real) * 50.304 + 67.072 * 67.072 = 83.84 * 83.84" by simp
    then show ?thesis using sqrt_8384 by (simp add: length3_def vec3_def)
  qed
  have d: "length3 (vec3 0 48 64) = 80"
    by (simp add: length3_def vec3_def sqrt_6400)
  have e: "frameDeltaTime 16 0 = 0.016"
    by (simp add: frameDeltaTime_def)
  show ?thesis using a b c d e by blast
qed

subsection \<open>C2: a collision ends the tick\<close>

text \<open>
  C2 says that once an obstacle overlaps the plane during \<open>Flying\<close> the state is
  \<open>Crashed\<close> and nothing else of that tick runs: no victory check and no stop check.
  \<open>checkObstacleCollisions\<close> returns to \<open>updatePhysics\<close>, which goes on to the victory
  check and the stop check without looking at the state.  A plane that rolls into a runway
  worker while its speed falls below 0.5 is settled twice in one tick: \<open>crash\<close> runs for
  the collision and again for the stop, the 50 coins of the run are credited twice and the
  progress is saved twice.  Before the tick the boxes do not overlap yet.
\<close>

theorem collision_settles_twice:
  "gameState (rolling 50 [person 51.855]) = Flying \<and>
   coins (rolling 50 [person 51.855]) = 0 \<and>
   \<not> intersectsBox (planeMeshesBox (rolling 50 [person 51.855])) (boundingBox (person 51.855)) \<and>
   intersectsBox (planeMeshesBox (integrate 0.5 (3 / 160) (rolling 50 [person 51.855])))
                 (boundingBox (person 51.855)) \<and>
   \<lfloor>distance (integrate 0.5 (3 / 160) (rolling 50 [person 51.855]))\<rfloor> = 50 \<and>
   updatePhysics planeMeshesBox 0.5 (3 / 160) (rolling 50 [person 51.855]) =
     crash (crash (integrate 0.5 (3 / 160) (rolling 50 [person 51.855]))) \<and>
   coins (updatePhysics planeMeshesBox 0.5 (3 / 160) (rolling 50 [person 51.855])) = 100 \<and>
   setItemCalls (updatePhysics planeMeshesBox 0.5 (3 / 160) (rolling 50 [person 51.855])) = 2"
proof -
  let ?g = "rolling 50 [person 51.855]"
  let ?r = "rolled 50 [person 51.855]"
  have i: "integrate 0.5 (3 / 160) ?g = ?r"
    using integrate_rolling [of "0.5" 50 "[person 51.855]"] by simp
  have n: "checkAndUnlockCheckpoints ?r = ?r"
    by (rule unlock_noop) (simp_all add: rolled_fields)
  have x: "intersectsBox (planeMeshesBox ?r) (boundingBox (person 51.855))"
    by (simp add: intersectsBox_def planeMeshesBox_def person_def rolled_fields vec3_def)
  have c: "checkObstacleCollisions (planeMeshesBox ?r) ?r = crash ?r"
    using x by (simp add: checkObstacleCollisions_def rolled_fields handleCollision_def person_def vec3_def)
  have z: "\<not> vz (position (crash ?r)) \<ge> 6000"
    by (simp add: rolled_fields vec3_def)
  have s: "length3 (velocity (crash ?r)) < 0.5"
    unfolding crash_fields rolled_fields length3_z by simp
  have y: "vy (position (crash ?r)) \<le> PLANE_HEIGHT / 2 + 0.1"
    by (simp add: rolled_fields vec3_def PLANE_HEIGHT_def)
  have u: "updatePhysics planeMeshesBox 0.5 (3 / 160) ?g = crash (crash ?r)"
    unfolding updatePhysics_def Let_def i n c using z s y by (simp add: rolling_Flying)
  have f: "\<lfloor>distance ?r\<rfloor> = 50"
    by (simp add: rolled_fields)
  have b: "\<not> intersectsBox (planeMeshesBox ?g) (boundingBox (person 51.855))"
    by (simp add: intersectsBox_def planeMeshesBox_def person_def rolling_def initialGame_def vec3_def)
  show ?thesis
    unfolding u unfolding i using x f b
    by (simp add: rolling_Flying rolled_fields dblInt_exact) (simp add: rolling_def initialGame_def)
qed

subsection \<open>C4: purchase gating\<close>

text \<open>
  C4: \<open>purchaseUpgrade key\<close> changes nothing when the level has reached \<open>maxTier\<close>, when
  the coins are fewer than the cost of the next tier, or when the required upgrade is at
  level 0; otherwise (the level being below \<open>maxTier\<close>) the purchase succeeds: the tier is
  raised by one and the cost is deducted, the new balance being the double nearest to the
  difference, which is the difference itself for a balance of at most 2^53.  A tier of an
  upgrade with a \<open>requires\<close> field changes only when the required upgrade is at level 1 or
  more.
\<close>

theorem purchase_gating:
  "(upgrades g key \<ge> maxTier (UPGRADES key) \<longrightarrow> purchaseUpgrade key g = g) \<and>
   (upgrades g key < maxTier (UPGRADES key) \<and>
      coins g < cost (tiers (UPGRADES key) ! upgrades g key) \<longrightarrow> purchaseUpgrade key g = g) \<and>
   ((\<exists>r. requires (UPGRADES key) = Some r \<and> upgrades g r = 0) \<longrightarrow> purchaseUpgrade key g = g) \<and>
   (upgrades g key < maxTier (UPGRADES key) \<and>
      \<not> coins g < cost (tiers (UPGRADES key) ! upgrades g key) \<and>
      \<not> (\<exists>r. requires (UPGRADES key) = Some r \<and> upgrades g r = 0) \<longrightarrow>
        coins (purchaseUpgrade key g) =
          dblInt (coins g - cost (tiers (UPGRADES key) ! upgrades g key)) \<and>
        (coins g \<le> 2 ^ 53 \<longrightarrow>
           coins (purchaseUpgrade key g) = coins g - cost (tiers (UPGRADES key) ! upgrades g key)) \<and>
        upgrades (purchaseUpgrade key g) key = upgrades g key + 1) \<and>
   (\<forall>r. requires (UPGRADES key) = Some r \<and>
        upgrades (purchaseUpgrade key g) key \<noteq> upgrades g key \<longrightarrow> upgrades g r \<ge> 1)"
proof (intro conjI impI allI)
  assume a: "upgrades g key < maxTier (UPGRADES key) \<and>
      \<not> coins g < cost (tiers (UPGRADES key) ! upgrades g key) \<and>
      \<not> (\<exists>r. requires (UPGRADES key) = Some r \<and> upgrades g r = 0)"
  then have p: "purchaseUpgrade key g =
           saveProgress (g\<lparr>coins := dblInt (coins g - cost (tiers (UPGRADES key) ! upgrades g key)),
                            upgrades := (upgrades g)(key := upgrades g key + 1)\<rparr>)"
    by (intro purchaseUpgrade_success) simp_all
  show "coins (purchaseUpgrade key g) =
          dblInt (coins g - cost (tiers (UPGRADES key) ! upgrades g key))"
    unfolding p by simp
  show "upgrades (purchaseUpgrade key g) key = upgrades g key + 1"
    unfolding p by simp
  assume "coins g \<le> 2 ^ 53"
  then show "coins (purchaseUpgrade key g) = coins g - cost (tiers (UPGRADES key) ! upgrades g key)"
    unfolding p using a purchase_exact [of g key] by simp
qed (auto simp: purchaseUpgrade_def saveProgress_def Let_def split: option.splits if_splits)

theorem purchase_gating_witness:
  "coins (purchaseUpgrade wings (initialGame\<lparr>coins := 120\<rparr>)) = 20 \<and>
   upgrades (purchaseUpgrade wings (initialGame\<lparr>coins := 120\<rparr>)) wings = 1 \<and>
   purchaseUpgrade wheels (initialGame\<lparr>coins := 500\<rparr>) = initialGame\<lparr>coins := 500\<rparr> \<and>
   purchaseUpgrade wings (initialGame\<lparr>coins := 99\<rparr>) = initialGame\<lparr>coins := 99\<rparr>"
  using purchase_gating [where g = "initialGame\<lparr>coins := 120\<rparr>" and key = wings]
        purchase_gating [where g = "initialGame\<lparr>coins := 500\<rparr>" and key = wheels]
        purchase_gating [where g = "initialGame\<lparr>coins := 99\<rparr>" and key = wings]
  by (simp add: initialGame_def tier2_def)

subsection \<open>C10: what a successful purchase changes\<close>

text \<open>
  C10 says that a successful purchase lowers the coins by exactly the cost of the tier.
  The balance is a double: above 2^53 a subtraction of a cost is rounded, and at a balance
  of 2^70 (a run that the drag step of C1 has thrown far beyond the mountain pays that
  much) the purchase of the first wings goes through and leaves the balance as it was.
\<close>

theorem purchase_absorbed:
  "upgrades (initialGame\<lparr>coins := 2 ^ 70\<rparr>) wings = 0 \<and>
   cost (tiers (UPGRADES wings) ! 0) = 100 \<and>
   upgrades (purchaseUpgrade wings (initialGame\<lparr>coins := 2 ^ 70\<rparr>)) wings = 1 \<and>
   coins (purchaseUpgrade wings (initialGame\<lparr>coins := 2 ^ 70\<rparr>)) = 2 ^ 70"
  using dblInt_absorb(3)
  by (simp add: purchaseUpgrade_def initialGame_def tier2_def)

text \<open>
  C10 as amended: a successful purchase of \<open>key\<close> at its current level sets the coins to
  the double nearest to the balance less the cost of tier \<open>level\<close> of the table, which is a
  decrease by exactly that cost whenever the balance is at most 2^53; it raises exactly
  that key's tier by one, and leaves every other upgrade's level, the unlocked checkpoints
  and the flight state (mode, position, velocity) as they were.
\<close>

theorem purchase_frame:
  assumes "upgrades g key < maxTier (UPGRADES key)"
      and "coins g \<ge> cost (tiers (UPGRADES key) ! upgrades g key)"
      and "\<forall>r. requires (UPGRADES key) = Some r \<longrightarrow> upgrades g r \<noteq> 0"
  shows "coins (purchaseUpgrade key g) =
           dblInt (coins g - cost (tiers (UPGRADES key) ! upgrades g key)) \<and>
         (coins g \<le> 2 ^ 53 \<longrightarrow>
            coins (purchaseUpgrade key g) = coins g - cost (tiers (UPGRADES key) ! upgrades g key)) \<and>
         upgrades (purchaseUpgrade key g) key = upgrades g key + 1 \<and>
         (\<forall>k. k \<noteq> key \<longrightarrow> upgrades (purchaseUpgrade key g) k = upgrades g k) \<and>
         checkpoints (purchaseUpgrade key g) = checkpoints g \<and>
         gameState (purchaseUpgrade key g) = gameState g \<and>
         position (purchaseUpgrade key g) = position g \<and>
         velocity (purchaseUpgrade key g) = velocity g"
proof -
  have p: "purchaseUpgrade key g =
           saveProgress (g\<lparr>coins := dblInt (coins g - cost (tiers (UPGRADES key) ! upgrades g key)),
                            upgrades := (upgrades g)(key := upgrades g key + 1)\<rparr>)"
    using assms by (intro purchaseUpgrade_success) auto
  show ?thesis
    unfolding p using assms(1,2) purchase_exact [of g key] by simp
qed

theorem purchase_frame_witness:
  "coins (purchaseUpgrade slingshot (initialGame\<lparr>coins := 70\<rparr>)) = 20 \<and>
   upgrades (purchaseUpgrade slingshot (initialGame\<lparr>coins := 70\<rparr>)) slingshot = 1 \<and>
   upgrades (purchaseUpgrade slingshot (initialGame\<lparr>coins := 70\<rparr>)) wings = 0 \<and>
   gameState (purchaseUpgrade slingshot (initialGame\<lparr>coins := 70\<rparr>)) = Ready"
  using purchase_frame [where g = "initialGame\<lparr>coins := 70\<rparr>" and key = slingshot]
  by (simp add: initialGame_def tier1_def)

subsection \<open>C5: the minimum pull\<close>

text \<open>
  C5: on release while pulling, a pull distance of at least \<open>MIN_PULL_DISTANCE\<close> (equality
  included) runs \<open>launch\<close> and the state becomes \<open>Flying\<close>; a smaller one returns the state
  to \<open>Ready\<close> with the pull distance reset to 0 and no launch (the velocity is untouched).
  With the slingshot and booster levels within their tables \<open>launch\<close> completes; beyond
  them it throws after it has already set the state to \<open>Flying\<close>.
\<close>

theorem release_launch_minimum:
  assumes "isDragging g" and "gameState g = Pulling"
  shows "(pullDistance g \<ge> MIN_PULL_DISTANCE \<longrightarrow>
            onMouseUp rnd g = launch rnd (g\<lparr>isDragging := False\<rparr>) \<and>
            gameState (final (onMouseUp rnd g)) = Flying \<and>
            (upgrades g slingshot \<le> 10 \<and> upgrades g boosters \<le> 10 \<longrightarrow>
               (\<exists>g'. onMouseUp rnd g = Inr g'))) \<and>
         (pullDistance g < MIN_PULL_DISTANCE \<longrightarrow>
            (\<exists>g'. onMouseUp rnd g = Inr g' \<and> gameState g' = Ready \<and> pullDistance g' = 0 \<and>
                  velocity g' = velocity g))"
proof -
  have len: "\<And>k. length (tiers (UPGRADES k)) = 10"
    by (simp add: catalog_length catalog_maxTier)
  have fly: "gameState (final (launch rnd h)) = Flying" for h
    by (simp add: launch_def final_def Let_def split: option.splits)
  have completes: "\<exists>g'. launch rnd h = Inr g'"
    if "upgrades h slingshot \<le> 10" and "upgrades h boosters \<le> 10" for h
    using that
    by (auto simp: launch_def Let_def tierStat_def nth_opt_def len split: option.splits)
  show ?thesis
    using assms fly [of "g\<lparr>isDragging := False\<rparr>"] completes [of "g\<lparr>isDragging := False\<rparr>"]
    by (auto simp: onMouseUp_def Let_def resetPlanePosition_def)
qed

theorem release_launch_minimum_witness:
  "gameState (final (onMouseUp 0.5
      (initialGame\<lparr>isDragging := True, gameState := Pulling, pullDistance := MIN_PULL_DISTANCE\<rparr>))) = Flying \<and>
   gameState (final (onMouseUp 0.5
      (initialGame\<lparr>isDragging := True, gameState := Pulling, pullDistance := 0.49\<rparr>))) = Ready \<and>
   pullDistance (final (onMouseUp 0.5
      (initialGame\<lparr>isDragging := True, gameState := Pulling, pullDistance := 0.49\<rparr>))) = 0"
  using release_launch_minimum
          [of "initialGame\<lparr>isDragging := True, gameState := Pulling, pullDistance := MIN_PULL_DISTANCE\<rparr>" "0.5"]
        release_launch_minimum
          [of "initialGame\<lparr>isDragging := True, gameState := Pulling, pullDistance := 0.49\<rparr>" "0.5"]
  by (auto simp: MIN_PULL_DISTANCE_def final_def)

subsection \<open>C7: the victory threshold\<close>




subsection \<open>C8: checkpoint unlocking is idempotent\<close>

text \<open>
  C8: when every zone boundary crossed so far is already unlocked, the checkpoint check
  leaves the whole state unchanged (coins, upgrade levels, checkpoints) and saves nothing;
  a save happens only when some checkpoint goes from locked to unlocked, at most once per
  check, and running the check a second time changes nothing more.
\<close>

theorem checkpoint_unlock_idempotent:
  "((\<forall>k \<in> {city, desert, forest}.
        startingZ g + distance g \<ge> zone_start (ZONES k) \<longrightarrow> checkpoints g k) \<longrightarrow>
      checkAndUnlockCheckpoints g = g) \<and>
   (setItemCalls (checkAndUnlockCheckpoints g) \<noteq> setItemCalls g \<longrightarrow>
      (\<exists>k. \<not> checkpoints g k \<and> checkpoints (checkAndUnlockCheckpoints g) k)) \<and>
   setItemCalls (checkAndUnlockCheckpoints g) \<le> setItemCalls g + 1 \<and>
   checkAndUnlockCheckpoints (checkAndUnlockCheckpoints g) = checkAndUnlockCheckpoints g"
proof (intro conjI impI)
  assume "\<forall>k \<in> {city, desert, forest}.
            startingZ g + distance g \<ge> zone_start (ZONES k) \<longrightarrow> checkpoints g k"
  then show "checkAndUnlockCheckpoints g = g"
    by (intro unlock_noop) simp_all
next
  assume "setItemCalls (checkAndUnlockCheckpoints g) \<noteq> setItemCalls g"
  then consider "startingZ g + distance g \<ge> 100 \<and> \<not> checkpoints g city"
    | "startingZ g + distance g \<ge> 1000 \<and> \<not> checkpoints g desert"
    | "startingZ g + distance g \<ge> 3000 \<and> \<not> checkpoints g forest"
    by (auto simp: unlock_setItemCalls split: if_splits)
  then show "\<exists>k. \<not> checkpoints g k \<and> checkpoints (checkAndUnlockCheckpoints g) k"
  proof cases
    case 1 then show ?thesis by (intro exI [of _ city]) (simp add: unlock_checkpoints)
  next
    case 2 then show ?thesis by (intro exI [of _ desert]) (simp add: unlock_checkpoints)
  next
    case 3 then show ?thesis by (intro exI [of _ forest]) (simp add: unlock_checkpoints)
  qed
next
  show "setItemCalls (checkAndUnlockCheckpoints g) \<le> setItemCalls g + 1"
    by (simp add: unlock_setItemCalls)
next
  show "checkAndUnlockCheckpoints (checkAndUnlockCheckpoints g) = checkAndUnlockCheckpoints g"
    by (intro unlock_noop) (simp_all add: unlock_checkpoints)
qed

theorem checkpoint_unlock_idempotent_witness:
  "checkAndUnlockCheckpoints
     (initialGame\<lparr>distance := 150, checkpoints := (\<lambda>k. k = runway \<or> k = city)\<rparr>) =
   initialGame\<lparr>distance := 150, checkpoints := (\<lambda>k. k = runway \<or> k = city)\<rparr> \<and>
   setItemCalls (checkAndUnlockCheckpoints (initialGame\<lparr>distance := 150\<rparr>)) = 1 \<and>
   checkpoints (checkAndUnlockCheckpoints (initialGame\<lparr>distance := 150\<rparr>)) city"
proof -
  have a: "setItemCalls (checkAndUnlockCheckpoints (initialGame\<lparr>distance := 150\<rparr>)) = 1"
    by (simp add: unlock_setItemCalls initialGame_def)
  have "\<exists>k. \<not> checkpoints (initialGame\<lparr>distance := 150\<rparr>) k \<and>
            checkpoints (checkAndUnlockCheckpoints (initialGame\<lparr>distance := 150\<rparr>)) k"
    using checkpoint_unlock_idempotent [of "initialGame\<lparr>distance := 150\<rparr>"] a
    by (simp add: initialGame_def)
  then have b: "checkpoints (checkAndUnlockCheckpoints (initialGame\<lparr>distance := 150\<rparr>)) city"
    by (auto simp: unlock_checkpoints initialGame_def)
  show ?thesis
    using checkpoint_unlock_idempotent
            [of "initialGame\<lparr>distance := 150, checkpoints := (\<lambda>k. k = runway \<or> k = city)\<rparr>"] a b
    by (simp add: initialGame_def)
qed

subsection \<open>C9: the stored highest distance never decreases\<close>

text \<open>
  C9: the \<open>highestDistance\<close> a save writes is the maximum of the current run distance and
  the value stored before (0 when nothing is stored), so it is never smaller than the
  stored one; it is non-negative because the run distance is (\<open>updateDistance\<close> sets it to
  a maximum with 0, and it starts at 0).
\<close>

theorem saved_highestDistance_monotone:
  "\<exists>d. localStorage (saveProgress g) = Some d \<and>
        highestDistance d = max (distance g) (getSavedHighestDistance g) \<and>
        highestDistance d \<ge> getSavedHighestDistance g \<and>
        (\<forall>old. localStorage g = Some old \<longrightarrow>
           getSavedHighestDistance g = highestDistance old \<and>
           highestDistance d = max (distance g) (highestDistance old) \<and>
           highestDistance d \<ge> highestDistance old) \<and>
        (0 \<le> distance g \<longrightarrow> 0 \<le> highestDistance d)"
  by (simp add: saveProgress_def getSavedHighestDistance_def Let_def le_max_iff_disj)

theorem saved_highestDistance_monotone_witness:
  "map_option highestDistance
     (localStorage (saveProgress (saveProgress (initialGame\<lparr>distance := 120\<rparr>)\<lparr>distance := 80\<rparr>))) = Some 120"
  using saved_highestDistance_monotone [of "saveProgress (initialGame\<lparr>distance := 120\<rparr>)\<lparr>distance := 80\<rparr>"]
        saved_highestDistance_monotone [of "initialGame\<lparr>distance := 120\<rparr>"]
  by (auto simp: saveProgress_def getSavedHighestDistance_def initialGame_def)

subsection \<open>C6: the launch angle\<close>

text \<open>
  C6 says that the angle parameter stays within [0.1, 0.9], that the launch angle in
  degrees is \<open>15 + launchAngle * 50\<close>, that it lies within [15, 65], and that the
  achievable range is 15 to 65 degrees.  A drag of 200 pixels or more to the right gives
  the parameter \<open>0.5 + (-1) * 0.4\<close>, which in doubles is 0.09999999999999998, below 0.1;
  and the most extreme drags give 20 and 60 degrees, not 15 and 65.
\<close>

theorem launch_angle_extremes:
  "launchAngle (onMouseMove 200 0 pulling) = 900719925474099 / 2 ^ 53 \<and>
   launchAngle (onMouseMove 200 0 pulling) < fl 0.1 \<and>
   launchAngle (onMouseMove 200 0 pulling) < 0.1 \<and>
   angleDegrees (launchAngle (onMouseMove 200 0 pulling)) = 20 \<and>
   launchAngle (onMouseMove (- 200) 0 pulling) = fl 0.9 \<and>
   angleDegrees (launchAngle (onMouseMove (- 200) 0 pulling)) = 60"
proof -
  have a: "angleDegrees (900719925474099 / 2 ^ 53) = 20"
    unfolding angleDegrees_def by (simp only: fl_deg_lo1 fl_deg_lo2)
  have b: "angleDegrees (8106479329266893 / 2 ^ 53) = 60"
    unfolding angleDegrees_def by (simp only: fl_deg_hi1 fl_60)
  have c: "(900719925474099 / 2 ^ 53 :: real) < fl 0.1" "(900719925474099 / 2 ^ 53 :: real) < 0.1"
          "8106479329266893 / 2 ^ 53 = fl 0.9"
    using fl_01 fl_09 by simp_all
  show ?thesis
    unfolding right_drag left_drag using a b c by blast
qed

text \<open>
  C6 as amended: from a parameter within [0.5 - 0.4, 0.5 + 0.4] as doubles have it, that
  is [0.09999999999999998, 0.9] (it starts at 0.5 and \<open>launch\<close> resets it to 0.5), every
  pointer move leaves the parameter within these bounds; the launch angle in degrees is
  \<open>15 + launchAngle * 50\<close> with both operations rounded and lies within [20, 60], so
  within [15, 65]; \<open>launch\<close> sets the velocity to
  \<open>(0, sin angle * power, cos angle * power)\<close> for that angle in radians and a power of at
  least 20, so upwards and forwards.
\<close>

theorem launch_angle_range:
  assumes "0.5 - fl 0.4 \<le> launchAngle g" and "launchAngle g \<le> 0.5 + fl 0.4"
  shows "0.5 - fl 0.4 \<le> launchAngle (onMouseMove x y g) \<and>
         launchAngle (onMouseMove x y g) \<le> 0.5 + fl 0.4 \<and>
         0.5 - fl 0.4 = 900719925474099 / 2 ^ 53 \<and>
         0.5 - fl 0.4 < fl 0.1 \<and>
         0.5 + fl 0.4 = fl 0.9 \<and>
         angleDegrees (launchAngle (onMouseMove x y g)) =
           fl (15 + fl (launchAngle (onMouseMove x y g) * 50)) \<and>
         20 \<le> angleDegrees (launchAngle (onMouseMove x y g)) \<and>
         angleDegrees (launchAngle (onMouseMove x y g)) \<le> 60 \<and>
         0.5 - fl 0.4 \<le> launchAngle (final (launch rnd g)) \<and>
         launchAngle (final (launch rnd g)) \<le> 0.5 + fl 0.4 \<and>
         (\<forall>g'. launch rnd g = Inr g' \<longrightarrow>
            (\<exists>m. (if upgrades g slingshot > 0
                   then tierStat slingshot (upgrades g slingshot) ''power'' else Some 1) = Some m \<and>
                  1 \<le> m \<and>
                  velocity g' =
                    vec3 0
                      (sin (angleDegrees (launchAngle g) * (pi / 180)) *
                         (max 20 (pullDistance g * LAUNCH_POWER_MULTIPLIER) * m))
                      (cos (angleDegrees (launchAngle g) * (pi / 180)) *
                         (max 20 (pullDistance g * LAUNCH_POWER_MULTIPLIER) * m))) \<and>
            0 < vy (velocity g') \<and> 0 < vz (velocity g'))"
proof -
  let ?a = "max (- 1) (min 1 (fl (- fl (x - px (pullStart g)) / 200)))"
  have a: "0.5 - fl 0.4 \<le> launchAngle (onMouseMove x y g) \<and>
           launchAngle (onMouseMove x y g) \<le> 0.5 + fl 0.4"
    unfolding onMouseMove_launchAngle
    using assms angle_step_bounds [of ?a] by simp
  have v: "0.5 - fl 0.4 = 900719925474099 / 2 ^ 53" "0.5 - fl 0.4 < fl 0.1" "0.5 + fl 0.4 = fl 0.9"
    using fl_04 fl_01 fl_09 by simp_all
  have d: "20 \<le> angleDegrees (launchAngle (onMouseMove x y g)) \<and>
           angleDegrees (launchAngle (onMouseMove x y g)) \<le> 60"
    using a degrees_bounds [of "launchAngle (onMouseMove x y g)"] by simp
  have half: "0.5 - fl 0.4 \<le> 0.5" "(0.5::real) \<le> 0.5 + fl 0.4"
    using fl_04 by simp_all
  have b: "0.5 - fl 0.4 \<le> launchAngle (final (launch rnd g)) \<and>
           launchAngle (final (launch rnd g)) \<le> 0.5 + fl 0.4"
    using assms half by (simp add: launch_def final_def Let_def split: option.splits)
  have dg: "20 \<le> angleDegrees (launchAngle g)" "angleDegrees (launchAngle g) \<le> 60"
    using assms degrees_bounds [of "launchAngle g"] by simp_all
  have th: "0 < angleDegrees (launchAngle g) * (pi / 180)"
           "angleDegrees (launchAngle g) * (pi / 180) < pi / 2"
    using dg pi_gt_zero by (simp_all add: field_simps)
  have s: "0 < sin (angleDegrees (launchAngle g) * (pi / 180))"
    using th pi_gt_zero by (intro sin_gt_zero) linarith+
  have c: "0 < cos (angleDegrees (launchAngle g) * (pi / 180))"
    using th by (intro cos_gt_zero_pi) linarith+
  have l: "(\<exists>m. (if upgrades g slingshot > 0
                   then tierStat slingshot (upgrades g slingshot) ''power'' else Some 1) = Some m \<and>
                  1 \<le> m \<and>
                  velocity g' =
                    vec3 0
                      (sin (angleDegrees (launchAngle g) * (pi / 180)) *
                         (max 20 (pullDistance g * LAUNCH_POWER_MULTIPLIER) * m))
                      (cos (angleDegrees (launchAngle g) * (pi / 180)) *
                         (max 20 (pullDistance g * LAUNCH_POWER_MULTIPLIER) * m))) \<and>
            0 < vy (velocity g') \<and> 0 < vz (velocity g')"
    if "launch rnd g = Inr g'" for g'
  proof -
    from launch_velocity [OF that] obtain m where
      m: "(if upgrades g slingshot > 0
           then tierStat slingshot (upgrades g slingshot) ''power'' else Some 1) = Some m"
         "1 \<le> m"
         "velocity g' =
            vec3 0
              (sin (angleDegrees (launchAngle g) * (pi / 180)) *
                 (max 20 (pullDistance g * LAUNCH_POWER_MULTIPLIER) * m))
              (cos (angleDegrees (launchAngle g) * (pi / 180)) *
                 (max 20 (pullDistance g * LAUNCH_POWER_MULTIPLIER) * m))"
      by blast
    have pw: "0 < max 20 (pullDistance g * LAUNCH_POWER_MULTIPLIER) * m"
      using m(2) by (intro mult_pos_pos) simp_all
    have "0 < vy (velocity g')" "0 < vz (velocity g')"
      unfolding m(3) vec3_def using s c pw by simp_all
    then show ?thesis using m by blast
  qed
  show ?thesis using a v d b l by (simp add: angleDegrees_def)
qed

theorem launch_angle_range_witness:
  "0.5 - fl 0.4 \<le> launchAngle pulling \<and> launchAngle pulling \<le> 0.5 + fl 0.4 \<and>
   20 \<le> angleDegrees (launchAngle (onMouseMove (- 90) 160 pulling)) \<and>
   angleDegrees (launchAngle (onMouseMove (- 90) 160 pulling)) \<le> 60"
proof -
  have h: "0.5 - fl 0.4 \<le> launchAngle pulling" "launchAngle pulling \<le> 0.5 + fl 0.4"
    using fl_04 by (simp_all add: pulling_fields)
  show ?thesis
    using launch_angle_range [OF h, of "- 90" 160 0] h by simp
qed

subsection \<open>C3: loading stored progress\<close>

text \<open>
  C3 says that loading never fails the caller and gives the defaults on every missing or
  malformed blob.  \<open>loadProgress\<close> has no exception handler: a stored text that is not
  JSON makes \<open>JSON.parse\<close> throw, the JSON text \<open>null\<close> makes the read of \<open>data.coins\<close>
  throw, and a wrongly shaped object is taken as stored (a string as the coins, a level of
  99).
\<close>

theorem loadProgress_throws:
  "loadProgress (Some NotJSON) initialProgress = Inl SyntaxError \<and>
   loadProgress (Some (JSONText JNull)) initialProgress = Inl TypeError \<and>
   loadProgress (Some (JSONText (JObj [(''coins'', JStr ''lots'')]))) initialProgress =
     Inr (initialProgress\<lparr>p_coins := JStr ''lots''\<rparr>) \<and>
   loadProgress (Some (JSONText (JObj [(''upgrades'', JObj [(''wings'', JNum 99)])]))) initialProgress =
     Inr (initialProgress\<lparr>p_upgrades :=
            [(''wings'', JNum 99), (''wheels'', JNum 0), (''tail'', JNum 0),
             (''aerodynamic'', JNum 0), (''slingshot'', JNum 0), (''boosters'', JNum 0)]\<rparr>)"
  by (simp add: loadProgress_def initialProgress_def objectAssign_def)

text \<open>
  C3 as amended: loading returns the variables unchanged (at start-up: the defaults, no
  coins, no upgrades, only the runway unlocked) when nothing or the empty string is stored;
  it never fails when the stored text parses to a JSON value other than \<open>null\<close>; a number,
  boolean, string or array leaves the upgrades and checkpoints and sets the coins to 0; of
  an object, a \<open>coins\<close>, \<open>upgrades\<close> or \<open>checkpoints\<close> field that is absent or falsy
  leaves the default, and one that is present and truthy is taken as stored.
\<close>


theorem loadProgress_defaults:
  "loadProgress None p = Inr p \<and>
   loadProgress (Some EmptyString) p = Inr p \<and>
   (data \<noteq> JNull \<and> data \<noteq> JUndefined \<longrightarrow>
      (\<exists>p'. loadProgress (Some (JSONText data)) p = Inr p')) \<and>
   ((\<forall>kvs. data \<noteq> JObj kvs) \<and> data \<noteq> JNull \<and> data \<noteq> JUndefined \<longrightarrow>
      loadProgress (Some (JSONText data)) p = Inr (p\<lparr>p_coins := JNum 0\<rparr>)) \<and>
   loadProgress (Some (JSONText (JObj kvs))) p =
     Inr \<lparr>p_coins = (case map_of kvs ''coins'' of
                        Some c \<Rightarrow> if truthy c then c else JNum 0
                      | None \<Rightarrow> JNum 0),
          p_upgrades = (case map_of kvs ''upgrades'' of
                          Some u \<Rightarrow> if truthy u then objectAssign (p_upgrades p) u else p_upgrades p
                        | None \<Rightarrow> p_upgrades p),
          p_checkpoints = (case map_of kvs ''checkpoints'' of
                             Some k \<Rightarrow> if truthy k then objectAssign (p_checkpoints p) k
                                       else p_checkpoints p
                           | None \<Rightarrow> p_checkpoints p)\<rparr>"
proof -
  have a: "loadProgress None p = Inr p" "loadProgress (Some EmptyString) p = Inr p"
    by (simp_all add: loadProgress_def)
  have b: "loadProgress (Some (JSONText data)) p = Inr (p\<lparr>p_coins := JNum 0\<rparr>)"
    if "\<forall>kvs. data \<noteq> JObj kvs" "data \<noteq> JNull" "data \<noteq> JUndefined"
    using that by (cases data) (simp_all add: loadProgress_def)
  have c: "loadProgress (Some (JSONText (JObj kvs))) p =
     Inr \<lparr>p_coins = (case map_of kvs ''coins'' of
                        Some c \<Rightarrow> if truthy c then c else JNum 0
                      | None \<Rightarrow> JNum 0),
          p_upgrades = (case map_of kvs ''upgrades'' of
                          Some u \<Rightarrow> if truthy u then objectAssign (p_upgrades p) u else p_upgrades p
                        | None \<Rightarrow> p_upgrades p),
          p_checkpoints = (case map_of kvs ''checkpoints'' of
                             Some k \<Rightarrow> if truthy k then objectAssign (p_checkpoints p) k
                                       else p_checkpoints p
                           | None \<Rightarrow> p_checkpoints p)\<rparr>" for kvs
    by (cases p) (simp add: loadProgress_def Let_def split: option.splits)
  have d: "\<exists>p'. loadProgress (Some (JSONText data)) p = Inr p'"
    if "data \<noteq> JNull" "data \<noteq> JUndefined"
  proof (cases "\<exists>kvs. data = JObj kvs")
    case True
    then show ?thesis using c by blast
  next
    case False
    then show ?thesis using b that by blast
  qed
  show ?thesis using a b c d by blast
qed

theorem loadProgress_defaults_witness:
  "loadProgress (Some (JSONText (JObj [(''coins'', JNum 250)]))) initialProgress =
     Inr (initialProgress\<lparr>p_coins := JNum 250\<rparr>) \<and>
   loadProgress (Some (JSONText (JNum 7))) initialProgress = Inr initialProgress \<and>
   loadProgress None initialProgress = Inr initialProgress"
  using loadProgress_defaults [of initialProgress "JNum 7" "[(''coins'', JNum 250)]"]
  by (simp add: initialProgress_def)

end
